theory Spec2Isabelle
  imports Main "HOL-Library.Word"
begin

section \<open>vdodumpconfig: dumping the configuration of a VDO volume\<close>

text \<open>
  A shallow embedding of \<^verbatim>\<open>src/utils/vdo/user/vdodumpconfig.c\<close>. The program is a
  straight line of calls into libc and into the VDO volume library; every call that
  has an effect is a state transformer on a \<open>world\<close>, and every call that ends the
  process (\<^verbatim>\<open>exit\<close>, \<^verbatim>\<open>errx\<close>) returns \<open>Inl\<close>, so that nothing after
  it runs.
\<close>

subsection \<open>Data\<close>

text \<open>
  \<^verbatim>\<open>VDOConfig\<close> is declared in \<^verbatim>\<open>types.h\<close>, which is not among the sources; the five
  fields the program prints are printed with \<^verbatim>\<open>PRIu64\<close>, and the specification gives
  them as unsigned 64-bit counts. \<^verbatim>\<open>struct VDO\<close> (\<^verbatim>\<open>vdoInternal.h\<close>) is read
  through its \<^verbatim>\<open>config\<close> member only.
\<close>

record VDOConfig =
  logicalBlocks :: "64 word"
  physicalBlocks :: "64 word"
  slabSize :: "64 word"
  recoveryJournalSize :: "64 word"
  slabJournalBlocks :: "64 word"

record VDO =
  config :: VDOConfig

text \<open>
  The result of \<^verbatim>\<open>makeVDOFromFile\<close> is an \<^verbatim>\<open>int\<close> status code. The codes are
  declared outside the sources; the program only compares the result with
  \<^verbatim>\<open>VDO_SUCCESS\<close>, so the codes are an enumeration with one success value.
\<close>

datatype status = VDO_SUCCESS | VDO_ERROR nat

text \<open>
  What the process does that can be seen from outside, in the order it does it:
  writes to the two standard streams, the values \<^verbatim>\<open>getopt_long\<close> returned, and the
  calls into the logger and the volume library. \<open>MakeVDO path readOnly result\<close> is a
  call of \<^verbatim>\<open>makeVDOFromFile\<close> with what it returned, and \<open>Deref a\<close> is the read of
  \<^verbatim>\<open>vdo->config\<close> through the pointer \<open>a\<close>.
\<close>

datatype event =
    Stdout string
  | Stderr string
  | Getopt int
  | OpenLogger
  | MakeVDO string bool status
  | Deref nat
  | FreeVDO nat

text \<open>
  The state of the machine a run acts on: the name libc reports for the program,
  the content of every backing store (by path), the \<^verbatim>\<open>VDO\<close> objects that are
  allocated (by address), the next free address, and the events so far.
\<close>

record 'b world =
  progname :: string
  disk :: "string \<Rightarrow> 'b"
  vdos :: "nat \<rightharpoonup> VDO"
  next_vdo :: nat
  trace :: "event list"

text \<open>
  What the build and the platform fix for every run. \<^verbatim>\<open>VDO_BLOCK_SIZE\<close> is a constant
  of \<^verbatim>\<open>constants.h\<close>, not among the sources; it is passed to \<^verbatim>\<open>printf\<close> for a
  \<^verbatim>\<open>%d\<close>, hence a C \<^verbatim>\<open>int\<close>. \<open>posixly_correct\<close> says whether the environment
  variable \<^verbatim>\<open>POSIXLY_CORRECT\<close> is set, which \<^verbatim>\<open>getopt_long\<close> reads. \<open>load\<close> is the
  volume library's parser of a backing store (an error code, or the \<^verbatim>\<open>VDO\<close> it
  builds), and \<open>writable_open\<close> is whatever the library does to a backing store it
  opens for writing; both are outside the sources and left arbitrary.
\<close>

record 'b env =
  posixly_correct :: bool
  VDO_BLOCK_SIZE :: "32 word"
  load :: "'b \<Rightarrow> nat + VDO"
  writable_open :: "'b \<Rightarrow> 'b"

text \<open>
  A process ends by \<^verbatim>\<open>exit\<close> with a code, or by a fault (a read through a null or
  freed pointer). A call either ends the process (\<open>Inl\<close>) or returns a value
  (\<open>Inr\<close>), in both cases with the world it leaves.
\<close>

datatype outcome = Exit int | Fault

type_synonym ('a, 'b) proc = "'b world \<Rightarrow> (outcome \<times> 'b world) + ('a \<times> 'b world)"

definition seq :: "('a, 'b) proc \<Rightarrow> ('a \<Rightarrow> ('c, 'b) proc) \<Rightarrow> ('c, 'b) proc" where
  "seq m f w = (case m w of Inl e \<Rightarrow> Inl e | Inr (v, w') \<Rightarrow> f v w')"

definition return :: "'a \<Rightarrow> ('a, 'b) proc" where
  "return v w = Inr (v, w)"

definition emit :: "event \<Rightarrow> 'b world \<Rightarrow> 'b world" where
  "emit e w = w\<lparr>trace := trace w @ [e]\<rparr>"

fun stdout_of :: "event list \<Rightarrow> string" where
  "stdout_of [] = []"
| "stdout_of (Stdout s # es) = s @ stdout_of es"
| "stdout_of (e # es) = stdout_of es"

fun stderr_of :: "event list \<Rightarrow> string" where
  "stderr_of [] = []"
| "stderr_of (Stderr s # es) = s @ stderr_of es"
| "stderr_of (e # es) = stderr_of es"

subsection \<open>libc: output, process exit, number formatting\<close>

text \<open>
  \<^verbatim>\<open>printf\<close> takes the text already formatted. \<^verbatim>\<open>errx(eval, fmt, ...)\<close> writes the
  program name, a colon and a space, the formatted message and a newline to standard
  error, and exits with \<open>eval\<close>; it does not return.
\<close>

definition printf :: "string \<Rightarrow> (unit, 'b) proc" where
  "printf s w = Inr ((), emit (Stdout s) w)"

definition exit :: "int \<Rightarrow> ('a, 'b) proc" where
  "exit code w = Inl (Exit code, w)"

definition errx :: "int \<Rightarrow> string \<Rightarrow> ('a, 'b) proc" where
  "errx eval msg w = Inl (Exit eval, emit (Stderr (progname w @ '': '' @ msg @ ''\<newline>'')) w)"

definition digit_char :: "nat \<Rightarrow> char" where
  "digit_char d = char_of (48 + d)"

fun decimal :: "nat \<Rightarrow> string" where
  "decimal n = (if n < 10 then [digit_char n] else decimal (n div 10) @ [digit_char (n mod 10)])"

declare decimal.simps [simp del]

text \<open>\<^verbatim>\<open>"%" PRIu64\<close> of a 64-bit unsigned value, and \<^verbatim>\<open>"%d"\<close> of an \<^verbatim>\<open>int\<close>.\<close>

definition fmt_PRIu64 :: "64 word \<Rightarrow> string" where
  "fmt_PRIu64 x = decimal (unat x)"

definition fmt_d :: "32 word \<Rightarrow> string" where
  "fmt_d x = (if sint x < 0 then ''-'' @ decimal (nat (- sint x)) else decimal (nat (sint x)))"

text \<open>
  \<^verbatim>\<open>argv[0]\<close> as \<^verbatim>\<open>"%s"\<close> prints it: glibc prints \<^verbatim>\<open>(null)\<close> for the null pointer
  that \<^verbatim>\<open>argv[0]\<close> is when the argument vector is empty. The name \<^verbatim>\<open>errx\<close> prints is
  glibc's \<^verbatim>\<open>program_invocation_short_name\<close>: what follows the last slash of
  \<^verbatim>\<open>argv[0]\<close>.
\<close>

definition arg0 :: "string list \<Rightarrow> string" where
  "arg0 argv = (case argv of [] \<Rightarrow> ''(null)'' | a # _ \<Rightarrow> a)"

definition short_name :: "string list \<Rightarrow> string" where
  "short_name argv = (case argv of [] \<Rightarrow> [] | a # _ \<Rightarrow> rev (takeWhile (\<lambda>c. c \<noteq> CHR ''/'') (rev a)))"

subsection \<open>libc: \<^verbatim>\<open>getopt_long\<close>\<close>

text \<open>
  \<^verbatim>\<open>getopt_long\<close> belongs to the C library. The model follows getopt_long(3) and
  glibc's \<^verbatim>\<open>posix/getopt.c\<close> for option tables whose options take no argument and
  have a null \<^verbatim>\<open>flag\<close>, which is all this program declares, with \<^verbatim>\<open>opterr\<close> at its
  default (diagnostics are printed). One scan of the command line gives what the
  successive calls return before \<open>-1\<close> (each with the diagnostic that call writes to
  standard error), the value of \<^verbatim>\<open>optind\<close> when \<open>-1\<close> is returned, and the argument
  vector as the calls have permuted it by then.
\<close>

record long_option =
  name :: string
  has_arg :: nat
  val :: int

definition no_argument :: nat where
  "no_argument = 0"

record getopt_scan =
  g_returns :: "(int \<times> string) list"
  g_optind :: int
  g_argv :: "string list"

text \<open>An element that is not an option: it does not start with a dash, or is a lone dash.\<close>

definition NONOPTION_P :: "string \<Rightarrow> bool" where
  "NONOPTION_P a = (case a of [] \<Rightarrow> True | c # r \<Rightarrow> c \<noteq> CHR ''-'' \<or> r = [])"

text \<open>
  An element \<^verbatim>\<open>-xyz\<close>: one return per character, the character's code when it is in
  the option string, else \<^verbatim>\<open>'?'\<close> with a diagnostic.
\<close>

definition short_returns :: "string \<Rightarrow> string \<Rightarrow> string \<Rightarrow> (int \<times> string) list" where
  "short_returns a0 optstring a =
     map (\<lambda>c. if c \<in> set optstring \<and> c \<noteq> CHR '':'' \<and> c \<noteq> CHR '';''
               then (of_char c, [])
               else (of_char CHR ''?'', a0 @ '': invalid option -- '' @ [CHR 0x27, c, CHR 0x27] @ ''\<newline>''))
         (tl a)"

text \<open>
  An element \<^verbatim>\<open>--name\<close> or \<^verbatim>\<open>--name=value\<close>: the name matches an entry of the table
  exactly, or is an abbreviation of exactly one entry. An entry that takes no
  argument and is given one, and a name that matches nothing, return \<^verbatim>\<open>'?'\<close>.
\<close>

definition long_return :: "string \<Rightarrow> long_option list \<Rightarrow> string \<Rightarrow> int \<times> string" where
  "long_return a0 longopts a =
     (let nextchar = drop 2 a;
          nm = takeWhile (\<lambda>c. c \<noteq> CHR ''='') nextchar;
          exact = filter (\<lambda>p. name p = nm) longopts;
          abbrev = filter (\<lambda>p. take (length nm) (name p) = nm) longopts;
          pfound = (case exact of p # _ \<Rightarrow> Some p
                    | [] \<Rightarrow> (case abbrev of [p] \<Rightarrow> Some p | _ \<Rightarrow> None))
      in case pfound of
           None \<Rightarrow> (of_char CHR ''?'', a0 @ '': unrecognized option '--'' @ nextchar @ [CHR 0x27] @ ''\<newline>'')
         | Some p \<Rightarrow>
             if length nm < length nextchar
             then (of_char CHR ''?'',
                   a0 @ '': option '--'' @ name p @ [CHR 0x27] @ '' doesn't allow an argument\<newline>'')
             else (val p, []))"

definition element_returns ::
  "string \<Rightarrow> string \<Rightarrow> long_option list \<Rightarrow> string \<Rightarrow> (int \<times> string) list" where
  "element_returns a0 optstring longopts a =
     (if take 2 a = ''--'' then [long_return a0 longopts a]
      else short_returns a0 optstring a)"

text \<open>
  The scan of \<^verbatim>\<open>argv[1..]\<close>: the option elements in order, what they return, and the
  elements that are not options in order. \<^verbatim>\<open>--\<close> ends the scan and counts as an
  option element. An element that is not an option is skipped (and later moved
  behind the options), or ends the scan when \<^verbatim>\<open>POSIXLY_CORRECT\<close> is set.
\<close>

fun scan ::
  "bool \<Rightarrow> string \<Rightarrow> string \<Rightarrow> long_option list \<Rightarrow> string list
    \<Rightarrow> string list \<times> (int \<times> string) list \<times> string list" where
  "scan posix a0 optstring longopts [] = ([], [], [])"
| "scan posix a0 optstring longopts (a # as) =
     (if a = ''--'' then ([a], [], as)
      else if NONOPTION_P a then
        (if posix then ([], [], a # as)
         else (case scan posix a0 optstring longopts as of
                 (opts, rets, nonopts) \<Rightarrow> (opts, rets, a # nonopts)))
      else (case scan posix a0 optstring longopts as of
              (opts, rets, nonopts) \<Rightarrow>
                (a # opts, element_returns a0 optstring longopts a @ rets, nonopts)))"

definition getopt_long ::
  "bool \<Rightarrow> string list \<Rightarrow> string \<Rightarrow> long_option list \<Rightarrow> getopt_scan" where
  "getopt_long posix argv optstring longopts =
     (case argv of
        [] \<Rightarrow> \<lparr>g_returns = [], g_optind = 1, g_argv = []\<rparr>
      | a0 # args \<Rightarrow>
          (case scan posix a0 optstring longopts args of
             (opts, rets, nonopts) \<Rightarrow>
               \<lparr>g_returns = rets, g_optind = 1 + int (length opts),
                g_argv = a0 # opts @ nonopts\<rparr>))"

subsection \<open>The volume library\<close>

text \<open>
  Modelled from the spec: \<^verbatim>\<open>makeVDOFromFile\<close> and \<^verbatim>\<open>freeVDOFromFile\<close>
  (\<^verbatim>\<open>vdoVolumeUtils.h\<close>) are not among the sources. The specification's external
  interface: opening read-only returns a usable handle or a load error and must not
  mutate the backing store; closing releases everything associated with the handle.
  Opening for writing applies \<open>writable_open\<close> to the backing store first. On failure
  the pointer is not set.
\<close>

definition makeVDOFromFile ::
  "'b env \<Rightarrow> string \<Rightarrow> bool \<Rightarrow> (status \<times> nat option, 'b) proc" where
  "makeVDOFromFile env filename readOnly w =
     (let w1 = (if readOnly then w
                else w\<lparr>disk := (disk w)(filename := writable_open env (disk w filename))\<rparr>)
      in case load env (disk w1 filename) of
           Inl e \<Rightarrow>
             Inr ((VDO_ERROR e, None), emit (MakeVDO filename readOnly (VDO_ERROR e)) w1)
         | Inr v \<Rightarrow>
             Inr ((VDO_SUCCESS, Some (next_vdo w1)),
                  emit (MakeVDO filename readOnly VDO_SUCCESS)
                    (w1\<lparr>vdos := (vdos w1)(next_vdo w1 \<mapsto> v), next_vdo := Suc (next_vdo w1)\<rparr>)))"

text \<open>
  Modelled from the spec: \<^verbatim>\<open>freeVDOFromFile\<close> is not among the sources. The
  specification's \<^verbatim>\<open>close(handle)\<close> releases all resources associated with the handle.
  \<^verbatim>\<open>freeVDOFromFile(&vdo)\<close> frees the object and returns the pointer's new value, null;
  freeing what is not allocated is a fault.
\<close>

definition freeVDOFromFile :: "nat option \<Rightarrow> (nat option, 'b) proc" where
  "freeVDOFromFile vdo w =
     (case vdo of
        None \<Rightarrow> Inr (None, w)
      | Some a \<Rightarrow>
          (case vdos w a of
             None \<Rightarrow> Inl (Fault, w)
           | Some v \<Rightarrow> Inr (None, emit (FreeVDO a) (w\<lparr>vdos := (vdos w)(a := None)\<rparr>))))"

text \<open>\<^verbatim>\<open>vdo->config\<close>: a read through the pointer, a fault when nothing is allocated there.\<close>

definition deref_config :: "nat option \<Rightarrow> (VDOConfig, 'b) proc" where
  "deref_config vdo w =
     (case vdo of
        None \<Rightarrow> Inl (Fault, w)
      | Some a \<Rightarrow>
          (case vdos w a of
             None \<Rightarrow> Inl (Fault, w)
           | Some v \<Rightarrow> Inr (config v, emit (Deref a) w)))"

definition openLogger :: "(unit, 'b) proc" where
  "openLogger w = Inr ((), emit OpenLogger w)"

subsection \<open>The program\<close>

definition usageString :: string where
  "usageString = ''[--help] vdoBacking''"

definition helpString :: string where
  "helpString =
     ''vdodumpconfig - dump the configuration of a VDO volume from its backing\<newline>'' @
     ''                store.\<newline>'' @
     ''\<newline>'' @
     ''SYNOPSIS\<newline>'' @
     ''  vdodumpconfig <vdoBacking>\<newline>'' @
     ''\<newline>'' @
     ''DESCRIPTION\<newline>'' @
     ''  vdodumpconfig dumps the configuration of a VDO volume, whether or not\<newline>'' @
     ''  the VDO is running.\<newline>'' @
     ''\<newline>''"

definition options :: "long_option list" where
  "options = [\<lparr>name = ''help'', has_arg = no_argument, val = of_char CHR ''h''\<rparr>]"

definition usage :: "string \<Rightarrow> (unit, 'b) proc" where
  "usage progname' =
     errx 1 (''Usage: '' @ progname' @ '' '' @ usageString @ ''\<newline>'')"

text \<open>
  The \<^verbatim>\<open>while\<close> loop of \<^verbatim>\<open>processArgs\<close>, over what the calls of \<^verbatim>\<open>getopt_long\<close>
  return: the empty list is the call that returns \<open>-1\<close>. Each call writes its
  diagnostic first. After \<^verbatim>\<open>usage\<close> the \<^verbatim>\<open>break\<close> leaves the \<^verbatim>\<open>switch\<close> and the
  loop goes on, were \<^verbatim>\<open>usage\<close> to return.
\<close>

fun processArgs_loop :: "string list \<Rightarrow> (int \<times> string) list \<Rightarrow> (unit, 'b) proc" where
  "processArgs_loop argv [] w = Inr ((), emit (Getopt (- 1)) w)"
| "processArgs_loop argv ((c, diag) # rest) w =
     (let w1 = emit (Getopt c) (if diag = [] then w else emit (Stderr diag) w)
      in if c = of_char CHR ''h''
         then seq (printf helpString) (\<lambda>_. exit 0) w1
         else (case usage (arg0 argv) w1 of
                 Inl e \<Rightarrow> Inl e
               | Inr (_, w2) \<Rightarrow> processArgs_loop argv rest w2))"

definition processArgs :: "'b env \<Rightarrow> string list \<Rightarrow> (string, 'b) proc" where
  "processArgs env argv =
     (let optionString = ''h'';
          g = getopt_long (posixly_correct env) argv optionString options;
          argc = int (length argv)
      in seq (processArgs_loop argv (g_returns g)) (\<lambda>_.
         seq (if g_optind g \<noteq> argc - 1 then usage (arg0 argv) else return ()) (\<lambda>_.
         return (g_argv g ! nat (g_optind g)))))"

definition readVDOConfig :: "'b env \<Rightarrow> string \<Rightarrow> (VDOConfig, 'b) proc" where
  "readVDOConfig env vdoBacking =
     seq (makeVDOFromFile env vdoBacking True) (\<lambda>(result, vdo).
     seq (if result \<noteq> VDO_SUCCESS
          then errx 1 (''Could not load VDO from '' @ [CHR 0x27] @ vdoBacking @ [CHR 0x27])
          else return ()) (\<lambda>_.
     seq (deref_config vdo) (\<lambda>config'.
     seq (freeVDOFromFile vdo) (\<lambda>_.
     return config'))))"

definition main :: "'b env \<Rightarrow> string list \<Rightarrow> (int, 'b) proc" where
  "main env argv =
     seq (processArgs env argv) (\<lambda>vdoBacking.
     seq openLogger (\<lambda>_.
     seq (readVDOConfig env vdoBacking) (\<lambda>config'.
     seq (printf ''VDOConfig:\<newline>'') (\<lambda>_.
     seq (printf (''  blockSize: '' @ fmt_d (VDO_BLOCK_SIZE env) @ ''\<newline>'')) (\<lambda>_.
     seq (printf (''  logicalBlocks: '' @ fmt_PRIu64 (logicalBlocks config') @ ''\<newline>'')) (\<lambda>_.
     seq (printf (''  physicalBlocks: '' @ fmt_PRIu64 (physicalBlocks config') @ ''\<newline>'')) (\<lambda>_.
     seq (printf (''  slabSize: '' @ fmt_PRIu64 (slabSize config') @ ''\<newline>'')) (\<lambda>_.
     seq (printf (''  recoveryJournalSize: '' @ fmt_PRIu64 (recoveryJournalSize config')
                    @ ''\<newline>'')) (\<lambda>_.
     seq (printf (''  slabJournalBlocks: '' @ fmt_PRIu64 (slabJournalBlocks config')
                    @ ''\<newline>'')) (\<lambda>_.
     exit 0))))))))))"

text \<open>
  A run of the program: the process starts with nothing written and no \<^verbatim>\<open>VDO\<close>
  allocated, and ends as \<^verbatim>\<open>main\<close> ends (a value \<^verbatim>\<open>main\<close> returned would be the exit
  code).
\<close>

definition initial_world :: "string list \<Rightarrow> (string \<Rightarrow> 'b) \<Rightarrow> 'b world" where
  "initial_world argv d =
     \<lparr>progname = short_name argv, disk = d, vdos = Map.empty, next_vdo = 1, trace = []\<rparr>"

definition run :: "'b env \<Rightarrow> string list \<Rightarrow> (string \<Rightarrow> 'b) \<Rightarrow> outcome \<times> 'b world" where
  "run env argv d =
     (case main env argv (initial_world argv d) of
        Inl r \<Rightarrow> r
      | Inr (v, w) \<Rightarrow> (Exit v, w))"

section \<open>The vocabulary of the claims\<close>

subsection \<open>Flags and positional arguments\<close>

text \<open>
  The scan \<^verbatim>\<open>processArgs\<close> asks \<^verbatim>\<open>getopt_long\<close> for. The flags of a command line are what
  the scan returns, in the order \<^verbatim>\<open>getopt_long\<close> processes them: the code of \<^verbatim>\<open>'h'\<close> for
  \<^verbatim>\<open>-h\<close> and \<^verbatim>\<open>--help\<close>, the code of \<^verbatim>\<open>'?'\<close> for a flag that is not recognized. The
  positional arguments are what the scan leaves from \<^verbatim>\<open>optind\<close> on.
\<close>

definition scan_of :: "'b env \<Rightarrow> string list \<Rightarrow> getopt_scan" where
  "scan_of env argv = getopt_long (posixly_correct env) argv ''h'' options"

definition flags :: "'b env \<Rightarrow> string list \<Rightarrow> int list" where
  "flags env argv = map fst (g_returns (scan_of env argv))"

definition positional_args :: "'b env \<Rightarrow> string list \<Rightarrow> string list" where
  "positional_args env argv = drop (nat (g_optind (scan_of env argv))) (g_argv (scan_of env argv))"

text \<open>The position of the first help flag and of the first other flag in a list of flags.\<close>

definition first_help :: "int list \<Rightarrow> nat" where
  "first_help fs = length (takeWhile (\<lambda>c. c \<noteq> of_char CHR ''h'') fs)"

definition first_unrecognized :: "int list \<Rightarrow> nat" where
  "first_unrecognized fs = length (takeWhile (\<lambda>c. c = of_char CHR ''h'') fs)"

subsection \<open>What the streams hold\<close>

text \<open>
  The two lines the program writes to standard error through \<^verbatim>\<open>errx\<close>, for a process
  started with the argument vector \<open>argv\<close>, and the event a diagnostic of
  \<^verbatim>\<open>getopt_long\<close> leaves (none when the diagnostic is empty).
\<close>

definition usage_line :: "string list \<Rightarrow> string" where
  "usage_line argv =
     short_name argv @ '': Usage: '' @ arg0 argv @ '' [--help] vdoBacking\<newline>\<newline>''"

definition load_line :: "string list \<Rightarrow> string \<Rightarrow> string" where
  "load_line argv path =
     short_name argv @ '': Could not load VDO from '' @ [CHR 0x27] @ path @ [CHR 0x27] @ ''\<newline>''"

definition diag_events :: "string \<Rightarrow> event list" where
  "diag_events diag = (if diag = [] then [] else [Stderr diag])"

subsection \<open>Unsigned decimal representations\<close>

text \<open>
  A string is the unsigned decimal representation of a number when it is a non-empty
  string of the digits \<^verbatim>\<open>0\<close> to \<^verbatim>\<open>9\<close>, has no leading zero unless it is \<^verbatim>\<open>0\<close>, and
  its value, read in base ten, is the number.
\<close>

definition is_digit :: "char \<Rightarrow> bool" where
  "is_digit c = (48 \<le> (of_char c :: nat) \<and> (of_char c :: nat) \<le> 57)"

definition digit_value :: "char \<Rightarrow> nat" where
  "digit_value c = of_char c - 48"

definition decimal_value :: "string \<Rightarrow> nat" where
  "decimal_value s = foldl (\<lambda>acc c. 10 * acc + digit_value c) 0 s"

definition unsigned_decimal :: "nat \<Rightarrow> string \<Rightarrow> bool" where
  "unsigned_decimal n s =
     (s \<noteq> [] \<and> list_all is_digit s \<and> (s = ''0'' \<or> hd s \<noteq> CHR ''0'') \<and> decimal_value s = n)"

subsection \<open>Kinds of events\<close>

text \<open>
  Writes to standard output; accesses to a volume (an open, a read through the pointer,
  a close); closes; and the events that are not an open for writing.
\<close>

fun writes_stdout :: "event \<Rightarrow> bool" where
  "writes_stdout (Stdout s) = True"
| "writes_stdout e = False"

fun volume_access :: "event \<Rightarrow> bool" where
  "volume_access (MakeVDO path readOnly result) = True"
| "volume_access (Deref a) = True"
| "volume_access (FreeVDO a) = True"
| "volume_access e = False"

fun closes :: "event \<Rightarrow> bool" where
  "closes (FreeVDO a) = True"
| "closes e = False"

fun read_only_open :: "event \<Rightarrow> bool" where
  "read_only_open (MakeVDO path readOnly result) = readOnly"
| "read_only_open e = True"

subsection \<open>The report\<close>

text \<open>
  The report as the specification lays it out: the header line, then one line per
  field, indented two spaces, the label, a colon and a space, the value. \<open>printed_values\<close>
  are the six values as \<^verbatim>\<open>main\<close> formats them, \<open>reported_numbers\<close> the numbers they
  stand for.
\<close>

definition labels :: "string list" where
  "labels = [''blockSize'', ''logicalBlocks'', ''physicalBlocks'', ''slabSize'',
             ''recoveryJournalSize'', ''slabJournalBlocks'']"

definition field_line :: "string \<Rightarrow> string \<Rightarrow> string" where
  "field_line label value = ''  '' @ label @ '': '' @ value @ ''\<newline>''"

definition report_text :: "string list \<Rightarrow> string" where
  "report_text values = ''VDOConfig:\<newline>'' @ concat (map2 field_line labels values)"

definition printed_values :: "'b env \<Rightarrow> VDOConfig \<Rightarrow> string list" where
  "printed_values env c =
     [fmt_d (VDO_BLOCK_SIZE env), fmt_PRIu64 (logicalBlocks c), fmt_PRIu64 (physicalBlocks c),
      fmt_PRIu64 (slabSize c), fmt_PRIu64 (recoveryJournalSize c),
      fmt_PRIu64 (slabJournalBlocks c)]"

definition reported_numbers :: "'b env \<Rightarrow> VDOConfig \<Rightarrow> nat list" where
  "reported_numbers env c =
     [unat (VDO_BLOCK_SIZE env), unat (logicalBlocks c), unat (physicalBlocks c),
      unat (slabSize c), unat (recoveryJournalSize c), unat (slabJournalBlocks c)]"

subsection \<open>What a run shows\<close>

text \<open>
  The persisted configuration of the volume at a path (none when the backing store does
  not load), and what a run shows to its caller: the way it ends and the content of
  standard output.
\<close>

definition persisted_config :: "'b env \<Rightarrow> (string \<Rightarrow> 'b) \<Rightarrow> string \<Rightarrow> VDOConfig option" where
  "persisted_config env d path = (case load env (d path) of Inl e \<Rightarrow> None | Inr v \<Rightarrow> Some (config v))"

definition observable :: "outcome \<times> 'b world \<Rightarrow> outcome \<times> string" where
  "observable r = (fst r, stdout_of (trace (snd r)))"

subsection \<open>A machine to run the program on\<close>

text \<open>
  The example of the specification: a block size of 4096 and one valid volume, at the
  path \<^verbatim>\<open>vol\<close>, with logicalBlocks 1024, physicalBlocks 2048, slabSize 512,
  recoveryJournalSize 64 and slabJournalBlocks 16. A backing store is either a volume or
  nothing that loads (error code 1); opening one for writing wipes it. \<open>other_disk\<close>
  has a second volume, at the path \<^verbatim>\<open>other\<close>.
\<close>

definition example_config :: VDOConfig where
  "example_config = \<lparr>logicalBlocks = 1024, physicalBlocks = 2048, slabSize = 512,
     recoveryJournalSize = 64, slabJournalBlocks = 16\<rparr>"

definition example_env :: "VDO option env" where
  "example_env = \<lparr>posixly_correct = False, VDO_BLOCK_SIZE = 4096,
     load = (\<lambda>b. case b of None \<Rightarrow> Inl 1 | Some v \<Rightarrow> Inr v),
     writable_open = (\<lambda>b. None)\<rparr>"

definition example_disk :: "string \<Rightarrow> VDO option" where
  "example_disk path = (if path = ''vol'' then Some \<lparr>config = example_config\<rparr> else None)"

definition other_disk :: "string \<Rightarrow> VDO option" where
  "other_disk path =
     (if path = ''vol'' \<or> path = ''other'' then Some \<lparr>config = example_config\<rparr> else None)"

section \<open>Facts about the model\<close>

subsection \<open>The scan of the command line\<close>

lemma scan_dashes:
  "a = ''--'' \<Longrightarrow> scan posix a0 os lo (a # as) = ([a], [], as)"
  by (subst scan.simps) (rule if_P)

lemma scan_stop:
  "a \<noteq> ''--'' \<Longrightarrow> NONOPTION_P a \<Longrightarrow> posix \<Longrightarrow>
   scan posix a0 os lo (a # as) = ([], [], a # as)"
  by (subst scan.simps) (simp only: if_True if_False)

lemma scan_skip:
  "a \<noteq> ''--'' \<Longrightarrow> NONOPTION_P a \<Longrightarrow> \<not> posix \<Longrightarrow>
   scan posix a0 os lo as = (opts, rets, nonopts) \<Longrightarrow>
   scan posix a0 os lo (a # as) = (opts, rets, a # nonopts)"
  by (subst scan.simps) (simp only: if_True if_False prod.case)

lemma scan_option:
  "a \<noteq> ''--'' \<Longrightarrow> \<not> NONOPTION_P a \<Longrightarrow>
   scan posix a0 os lo as = (opts, rets, nonopts) \<Longrightarrow>
   scan posix a0 os lo (a # as) = (a # opts, element_returns a0 os lo a @ rets, nonopts)"
  by (subst scan.simps) (simp only: if_True if_False prod.case)

lemma scan_Cons_cases:
  assumes "scan posix a0 os lo (a # as) = (opts, rets, nonopts)"
  obtains (dashes) "a = ''--''" "opts = [a]" "rets = []" "nonopts = as"
  | (stop) "posix" "opts = []" "rets = []" "nonopts = a # as"
  | (skip) opts' rets' nonopts' where "scan posix a0 os lo as = (opts', rets', nonopts')"
      "opts = opts'" "rets = rets'" "nonopts = a # nonopts'"
  | (option) opts' rets' nonopts' where "scan posix a0 os lo as = (opts', rets', nonopts')"
      "opts = a # opts'" "rets = element_returns a0 os lo a @ rets'" "nonopts = nonopts'"
proof -
  obtain opts' rets' nonopts' where r: "scan posix a0 os lo as = (opts', rets', nonopts')"
    by (cases "scan posix a0 os lo as") blast
  consider "a = ''--''" | "a \<noteq> ''--''" "NONOPTION_P a" "posix"
    | "a \<noteq> ''--''" "NONOPTION_P a" "\<not> posix" | "a \<noteq> ''--''" "\<not> NONOPTION_P a"
    by blast
  then show ?thesis
  proof cases
    case 1
    from scan_dashes [OF 1, of posix a0 os lo as, symmetric] assms
    have "([a], [], as) = (opts, rets, nonopts)" by (rule trans)
    with 1 dashes show ?thesis by (simp only: prod.inject)
  next
    case 2
    from scan_stop [OF 2, of a0 os lo as, symmetric] assms
    have "([], [], a # as) = (opts, rets, nonopts)" by (rule trans)
    with 2 stop show ?thesis by (simp only: prod.inject)
  next
    case 3
    from scan_skip [OF 3 r, symmetric] assms
    have "(opts', rets', a # nonopts') = (opts, rets, nonopts)" by (rule trans)
    with r skip show ?thesis by (simp only: prod.inject)
  next
    case 4
    from scan_option [OF 4 r, symmetric] assms
    have "(a # opts', element_returns a0 os lo a @ rets', nonopts') = (opts, rets, nonopts)"
      by (rule trans)
    with r option show ?thesis by (simp only: prod.inject)
  qed
qed

lemma scan_length:
  "scan posix a0 os lo as = (opts, rets, nonopts) \<Longrightarrow> length opts + length nonopts = length as"
proof (induction as arbitrary: opts rets nonopts)
  case Nil
  then show ?case by simp
next
  case (Cons a as)
  from Cons.prems show ?case
  proof (cases rule: scan_Cons_cases)
    case (skip opts' rets' nonopts')
    with Cons.IH show ?thesis by simp
  next
    case (option opts' rets' nonopts')
    with Cons.IH show ?thesis by simp
  qed simp_all
qed

lemma scan_set:
  "scan posix a0 os lo as = (opts, rets, nonopts) \<Longrightarrow> set opts \<union> set nonopts = set as"
proof (induction as arbitrary: opts rets nonopts)
  case Nil
  then show ?case by simp
next
  case (Cons a as)
  from Cons.prems show ?case
  proof (cases rule: scan_Cons_cases)
    case (skip opts' rets' nonopts')
    with Cons.IH [OF skip(1)] show ?thesis by auto
  next
    case (option opts' rets' nonopts')
    with Cons.IH [OF option(1)] show ?thesis by auto
  qed simp_all
qed

subsection \<open>What each function does, case by case\<close>

lemma processArgs_loop_help:
  "processArgs_loop argv ((of_char CHR ''h'', diag) # rest) w =
     Inl (Exit 0, w\<lparr>trace := trace w @ diag_events diag @ [Getopt (of_char CHR ''h''), Stdout helpString]\<rparr>)"
  by (simp add: seq_def printf_def exit_def emit_def diag_events_def)

lemma processArgs_loop_other:
  "c \<noteq> of_char CHR ''h'' \<Longrightarrow>
   processArgs_loop argv ((c, diag) # rest) w =
     Inl (Exit 1, w\<lparr>trace := trace w @ diag_events diag @
        [Getopt c, Stderr (progname w @ '': Usage: '' @ arg0 argv @ '' [--help] vdoBacking\<newline>\<newline>'')]\<rparr>)"
  by (simp add: usage_def errx_def emit_def diag_events_def usageString_def)

lemma processArgs_help:
  assumes "g_returns (scan_of env argv) = (of_char CHR ''h'', diag) # rest"
  shows "processArgs env argv w =
    Inl (Exit 0, w\<lparr>trace := trace w @ diag_events diag @
                     [Getopt (of_char CHR ''h''), Stdout helpString]\<rparr>)"
  using assms unfolding processArgs_def Let_def scan_of_def seq_def
  by (simp only: processArgs_loop_help sum.case)

lemma processArgs_unrecognized:
  assumes "g_returns (scan_of env argv) = (c, diag) # rest" and "c \<noteq> of_char CHR ''h''"
  shows "processArgs env argv w =
    Inl (Exit 1, w\<lparr>trace := trace w @ diag_events diag @
       [Getopt c, Stderr (progname w @ '': Usage: '' @ arg0 argv @
          '' [--help] vdoBacking\<newline>\<newline>'')]\<rparr>)"
  using assms unfolding processArgs_def Let_def scan_of_def seq_def
  by (simp add: processArgs_loop_other del: processArgs_loop.simps)

lemma processArgs_usage:
  assumes "g_returns (scan_of env argv) = []"
    and "g_optind (scan_of env argv) \<noteq> int (length argv) - 1"
  shows "processArgs env argv w =
    Inl (Exit 1, w\<lparr>trace := trace w @
       [Getopt (- 1), Stderr (progname w @ '': Usage: '' @ arg0 argv @
          '' [--help] vdoBacking\<newline>\<newline>'')]\<rparr>)"
  using assms unfolding processArgs_def Let_def scan_of_def seq_def
  by (simp add: usage_def errx_def emit_def usageString_def)

lemma processArgs_path:
  assumes "g_returns (scan_of env argv) = []"
    and "g_optind (scan_of env argv) = int (length argv) - 1"
  shows "processArgs env argv w =
    Inr (g_argv (scan_of env argv) ! nat (g_optind (scan_of env argv)),
         w\<lparr>trace := trace w @ [Getopt (- 1)]\<rparr>)"
  using assms unfolding processArgs_def Let_def scan_of_def seq_def
  by (simp add: return_def emit_def)

lemma readVDOConfig_failed:
  assumes "load env (disk w path) = Inl e"
  shows "readVDOConfig env path w =
    Inl (Exit 1, w\<lparr>trace := trace w @
       [MakeVDO path True (VDO_ERROR e),
        Stderr (progname w @ '': Could not load VDO from '' @ [CHR 0x27] @ path @ [CHR 0x27]
                  @ ''\<newline>'')]\<rparr>)"
  using assms unfolding readVDOConfig_def seq_def
  by (simp add: makeVDOFromFile_def errx_def emit_def)

lemma readVDOConfig_loaded:
  assumes "load env (disk w path) = Inr v"
  shows "readVDOConfig env path w =
    Inr (config v,
         w\<lparr>vdos := (vdos w)(next_vdo w := None), next_vdo := Suc (next_vdo w),
           trace := trace w @
             [MakeVDO path True VDO_SUCCESS, Deref (next_vdo w), FreeVDO (next_vdo w)]\<rparr>)"
  using assms unfolding readVDOConfig_def seq_def
  by (simp add: makeVDOFromFile_def deref_config_def freeVDOFromFile_def return_def emit_def)

text \<open>The five ways a run can go.\<close>

lemma run_help:
  assumes "g_returns (scan_of env argv) = (of_char CHR ''h'', diag) # rest"
  shows "run env argv d =
    (Exit 0, (initial_world argv d)
       \<lparr>trace := diag_events diag @ [Getopt (of_char CHR ''h''), Stdout helpString]\<rparr>)"
  unfolding run_def main_def seq_def [of "processArgs env argv"] processArgs_help [OF assms]
  by (simp add: initial_world_def)

lemma run_unrecognized:
  assumes "g_returns (scan_of env argv) = (c, diag) # rest" and "c \<noteq> of_char CHR ''h''"
  shows "run env argv d =
    (Exit 1, (initial_world argv d)
       \<lparr>trace := diag_events diag @ [Getopt c, Stderr (usage_line argv)]\<rparr>)"
  unfolding run_def main_def seq_def [of "processArgs env argv"] processArgs_unrecognized [OF assms]
  by (simp add: initial_world_def usage_line_def)

lemma run_usage:
  assumes "g_returns (scan_of env argv) = []"
    and "g_optind (scan_of env argv) \<noteq> int (length argv) - 1"
  shows "run env argv d =
    (Exit 1, (initial_world argv d)\<lparr>trace := [Getopt (- 1), Stderr (usage_line argv)]\<rparr>)"
  unfolding run_def main_def seq_def [of "processArgs env argv"] processArgs_usage [OF assms]
  by (simp add: initial_world_def usage_line_def)

lemma run_load_failed:
  assumes "g_returns (scan_of env argv) = []"
    and "g_optind (scan_of env argv) = int (length argv) - 1"
    and "load env (d (g_argv (scan_of env argv) ! nat (g_optind (scan_of env argv)))) = Inl e"
  shows "run env argv d =
    (Exit 1, (initial_world argv d)
       \<lparr>trace := [Getopt (- 1), OpenLogger,
          MakeVDO (g_argv (scan_of env argv) ! nat (g_optind (scan_of env argv))) True (VDO_ERROR e),
          Stderr (load_line argv (g_argv (scan_of env argv) ! nat (g_optind (scan_of env argv))))]\<rparr>)"
proof -
  let ?p = "g_argv (scan_of env argv) ! nat (g_optind (scan_of env argv))"
  let ?w = "(initial_world argv d)\<lparr>trace := [Getopt (- 1), OpenLogger]\<rparr>"
  have "load env (disk ?w ?p) = Inl e"
    using assms(3) by (simp add: initial_world_def)
  from readVDOConfig_failed [OF this] show ?thesis
    unfolding run_def main_def seq_def [of "processArgs env argv"]
      processArgs_path [OF assms(1,2)]
    by (simp add: seq_def openLogger_def emit_def initial_world_def load_line_def)
qed

lemma run_report:
  assumes "g_returns (scan_of env argv) = []"
    and "g_optind (scan_of env argv) = int (length argv) - 1"
    and "load env (d (g_argv (scan_of env argv) ! nat (g_optind (scan_of env argv)))) = Inr v"
  shows "run env argv d =
    (Exit 0, (initial_world argv d)
       \<lparr>next_vdo := 2,
        trace := [Getopt (- 1), OpenLogger,
          MakeVDO (g_argv (scan_of env argv) ! nat (g_optind (scan_of env argv))) True VDO_SUCCESS,
          Deref 1, FreeVDO 1,
          Stdout ''VDOConfig:\<newline>'',
          Stdout (''  blockSize: '' @ fmt_d (VDO_BLOCK_SIZE env) @ ''\<newline>''),
          Stdout (''  logicalBlocks: '' @ fmt_PRIu64 (logicalBlocks (config v)) @ ''\<newline>''),
          Stdout (''  physicalBlocks: '' @ fmt_PRIu64 (physicalBlocks (config v)) @ ''\<newline>''),
          Stdout (''  slabSize: '' @ fmt_PRIu64 (slabSize (config v)) @ ''\<newline>''),
          Stdout (''  recoveryJournalSize: '' @ fmt_PRIu64 (recoveryJournalSize (config v))
                    @ ''\<newline>''),
          Stdout (''  slabJournalBlocks: '' @ fmt_PRIu64 (slabJournalBlocks (config v))
                    @ ''\<newline>'')]\<rparr>)"
proof -
  let ?p = "g_argv (scan_of env argv) ! nat (g_optind (scan_of env argv))"
  let ?w = "(initial_world argv d)\<lparr>trace := [Getopt (- 1), OpenLogger]\<rparr>"
  have "load env (disk ?w ?p) = Inr v"
    using assms(3) by (simp add: initial_world_def)
  from readVDOConfig_loaded [OF this] show ?thesis
    unfolding run_def main_def seq_def [of "processArgs env argv"]
      processArgs_path [OF assms(1,2)]
    by (simp add: seq_def openLogger_def printf_def exit_def emit_def initial_world_def)
qed

subsection \<open>Decimal formatting\<close>

lemma is_digit_digit_char: "d < 10 \<Longrightarrow> is_digit (digit_char d)"
  by (simp add: is_digit_def digit_char_def)

lemma digit_value_digit_char: "d < 10 \<Longrightarrow> digit_value (digit_char d) = d"
  by (simp add: digit_value_def digit_char_def)

lemma digit_char_zero: "d < 10 \<Longrightarrow> digit_char d = CHR ''0'' \<longleftrightarrow> d = 0"
proof -
  assume d: "d < 10"
  have "(digit_char d = CHR ''0'') = (of_char (digit_char d) = (of_char CHR ''0'' :: nat))"
    by (simp only: of_char_eq_iff)
  also have "\<dots> = (d = 0)"
    using d by (simp add: digit_char_def)
  finally show ?thesis .
qed

lemma decimal_nonempty: "decimal n \<noteq> []"
  by (subst decimal.simps) simp

lemma decimal_digits: "list_all is_digit (decimal n)"
proof (induction n rule: decimal.induct)
  case (1 n)
  show ?case
  proof (cases "n < 10")
    case True
    then show ?thesis by (subst decimal.simps) (simp add: is_digit_digit_char)
  next
    case False
    with 1 show ?thesis by (subst decimal.simps) (simp add: is_digit_digit_char)
  qed
qed

lemma decimal_value_snoc: "decimal_value (s @ [c]) = 10 * decimal_value s + digit_value c"
  by (simp add: decimal_value_def)

lemma decimal_value_decimal: "decimal_value (decimal n) = n"
proof (induction n rule: decimal.induct)
  case (1 n)
  show ?case
  proof (cases "n < 10")
    case True
    then show ?thesis
      by (subst decimal.simps) (simp add: decimal_value_def digit_value_digit_char)
  next
    case False
    with 1 have "decimal_value (decimal (n div 10)) = n div 10" by simp
    with False show ?thesis
      by (subst decimal.simps) (simp add: decimal_value_snoc digit_value_digit_char)
  qed
qed

lemma decimal_leading: "0 < n \<Longrightarrow> hd (decimal n) \<noteq> CHR ''0''"
proof (induction n rule: decimal.induct)
  case (1 n)
  show ?case
  proof (cases "n < 10")
    case True
    with 1(2) show ?thesis
      by (subst decimal.simps) (simp add: digit_char_zero)
  next
    case False
    then have "0 < n div 10" by simp
    with 1(1) False have "hd (decimal (n div 10)) \<noteq> CHR ''0''" by simp
    with False show ?thesis
      by (subst decimal.simps) (simp add: decimal_nonempty)
  qed
qed

lemma decimal_zero: "decimal 0 = ''0''"
  by (subst decimal.simps) (simp add: digit_char_zero)

lemma unsigned_decimal_decimal: "unsigned_decimal n (decimal n)"
proof (cases "n = 0")
  case True
  then show ?thesis
    by (simp add: unsigned_decimal_def decimal_zero decimal_value_def digit_value_def is_digit_def)
next
  case False
  then show ?thesis
    by (simp add: unsigned_decimal_def decimal_nonempty decimal_digits decimal_value_decimal
        decimal_leading)
qed

lemma fmt_d_nonneg:
  assumes "0 \<le> sint x"
  shows "fmt_d x = decimal (unat x)"
proof -
  have "sint x < 2 ^ (LENGTH(32) - 1)" by (rule sint_lt)
  then have "sint x < 2 ^ LENGTH(32)" by simp
  with assms have "take_bit LENGTH(32) (sint x) = sint x"
    by (simp only: take_bit_int_eq_self)
  then have "uint x = sint x" by (simp only: uint_sint)
  then have "nat (sint x) = unat x" by (simp only: unat_eq_nat_uint)
  with assms show ?thesis by (simp add: fmt_d_def)
qed

subsection \<open>Streams, and the case analysis of a run\<close>

lemma stdout_of_append: "stdout_of (xs @ ys) = stdout_of xs @ stdout_of ys"
  by (induction xs rule: stdout_of.induct) simp_all

lemma stderr_of_append: "stderr_of (xs @ ys) = stderr_of xs @ stderr_of ys"
  by (induction xs rule: stderr_of.induct) simp_all

lemma diag_events_facts:
  "stdout_of (diag_events diag) = []" "stderr_of (diag_events diag) = diag"
  "Getopt c \<notin> set (diag_events diag)" "MakeVDO p ro st \<notin> set (diag_events diag)"
  "filter volume_access (diag_events diag) = []"
  "list_all read_only_open (diag_events diag)"
  by (simp_all add: diag_events_def)

lemma run_cases:
  obtains (help_flag) diag rest where
      "g_returns (scan_of env argv) = (of_char CHR ''h'', diag) # rest"
  | (unrecognized) c diag rest where
      "g_returns (scan_of env argv) = (c, diag) # rest" "c \<noteq> of_char CHR ''h''"
  | (usage) "g_returns (scan_of env argv) = []"
      "g_optind (scan_of env argv) \<noteq> int (length argv) - 1"
  | (failed) e where "g_returns (scan_of env argv) = []"
      "g_optind (scan_of env argv) = int (length argv) - 1"
      "load env (d (g_argv (scan_of env argv) ! nat (g_optind (scan_of env argv)))) = Inl e"
  | (report) v where "g_returns (scan_of env argv) = []"
      "g_optind (scan_of env argv) = int (length argv) - 1"
      "load env (d (g_argv (scan_of env argv) ! nat (g_optind (scan_of env argv)))) = Inr v"
proof (cases "g_returns (scan_of env argv)")
  case Nil
  show ?thesis
  proof (cases "g_optind (scan_of env argv) = int (length argv) - 1")
    case True
    with Nil failed report show ?thesis
      by (cases "load env (d (g_argv (scan_of env argv) ! nat (g_optind (scan_of env argv))))")
        blast+
  next
    case False
    with Nil usage show ?thesis by blast
  qed
next
  case (Cons r rest)
  obtain c diag where "r = (c, diag)" by (cases r) blast
  with Cons help_flag unrecognized show ?thesis
    by (cases "c = of_char CHR ''h''") blast+
qed

subsection \<open>Positional arguments\<close>

lemma scan_of_Cons:
  assumes "scan (posixly_correct env) a0 ''h'' options args = (opts, rets, nonopts)"
  shows "g_returns (scan_of env (a0 # args)) = rets"
    and "g_optind (scan_of env (a0 # args)) = 1 + int (length opts)"
    and "g_argv (scan_of env (a0 # args)) = a0 # opts @ nonopts"
    and "positional_args env (a0 # args) = nonopts"
    and "length opts + length nonopts = length args"
    and "set opts \<union> set nonopts = set args"
  using assms scan_length [OF assms] scan_set [OF assms]
  by (simp_all add: scan_of_def getopt_long_def positional_args_def nat_add_distrib)

lemma positional_one_iff:
  "length (positional_args env argv) = 1 \<longleftrightarrow>
     g_optind (scan_of env argv) = int (length argv) - 1"
proof (cases argv)
  case Nil
  then show ?thesis
    by (simp add: positional_args_def scan_of_def getopt_long_def)
next
  case (Cons a0 args)
  obtain opts rets nonopts
    where s: "scan (posixly_correct env) a0 ''h'' options args = (opts, rets, nonopts)"
    by (cases "scan (posixly_correct env) a0 ''h'' options args") blast
  from scan_of_Cons(2,4,5) [OF s] Cons show ?thesis by auto
qed

lemma positional_path:
  assumes "positional_args env argv = [p]"
  shows "g_argv (scan_of env argv) ! nat (g_optind (scan_of env argv)) = p"
proof (cases argv)
  case Nil
  with assms show ?thesis
    by (simp add: positional_args_def scan_of_def getopt_long_def)
next
  case (Cons a0 args)
  obtain opts rets nonopts
    where s: "scan (posixly_correct env) a0 ''h'' options args = (opts, rets, nonopts)"
    by (cases "scan (posixly_correct env) a0 ''h'' options args") blast
  from scan_of_Cons(2,3,4) [OF s] Cons assms show ?thesis
    by (simp add: nat_add_distrib nth_append)
qed

lemma path_in_argv:
  assumes "g_optind (scan_of env argv) = int (length argv) - 1"
  shows "g_argv (scan_of env argv) ! nat (g_optind (scan_of env argv)) \<in> set argv"
proof -
  from assms positional_one_iff [of env argv]
  have "length (positional_args env argv) = 1" by simp
  then obtain p where p: "positional_args env argv = [p]"
    by (cases "positional_args env argv") simp_all
  have "set (positional_args env argv) \<subseteq> set argv"
  proof (cases argv)
    case Nil
    then show ?thesis by (simp add: positional_args_def scan_of_def getopt_long_def)
  next
    case (Cons a0 args)
    obtain opts rets nonopts
      where s: "scan (posixly_correct env) a0 ''h'' options args = (opts, rets, nonopts)"
      by (cases "scan (posixly_correct env) a0 ''h'' options args") blast
    from scan_of_Cons(4,6) [OF s] Cons show ?thesis by auto
  qed
  with p positional_path [OF p] show ?thesis by simp
qed

subsection \<open>Runs on the example machine\<close>

lemma example_env_fields:
  "posixly_correct example_env = False"
  "VDO_BLOCK_SIZE example_env = 4096"
  "load example_env b = (case b of None \<Rightarrow> Inl 1 | Some v \<Rightarrow> Inr v)"
  "writable_open example_env b = None"
  by (simp_all add: example_env_def)

lemmas scan_eval =
  scan_of_def getopt_long_def example_env_fields NONOPTION_P_def element_returns_def
  short_returns_def long_return_def options_def no_argument_def

lemma example_scan_vol:
  "scan_of example_env [''vdodumpconfig'', ''vol'']
     = \<lparr>g_returns = [], g_optind = 1, g_argv = [''vdodumpconfig'', ''vol'']\<rparr>"
  by (simp add: scan_eval)

lemma example_scan_novol:
  "scan_of example_env [''vdodumpconfig'', ''novol'']
     = \<lparr>g_returns = [], g_optind = 1, g_argv = [''vdodumpconfig'', ''novol'']\<rparr>"
  by (simp add: scan_eval)

lemma example_scan_none:
  "scan_of example_env [''vdodumpconfig'']
     = \<lparr>g_returns = [], g_optind = 1, g_argv = [''vdodumpconfig'']\<rparr>"
  by (simp add: scan_eval)

lemma example_scan_h:
  "scan_of example_env [''vdodumpconfig'', ''-h'']
     = \<lparr>g_returns = [(of_char CHR ''h'', [])], g_optind = 2,
        g_argv = [''vdodumpconfig'', ''-h'']\<rparr>"
  by (simp add: scan_eval)

lemma example_scan_h_vol:
  "scan_of example_env [''vdodumpconfig'', ''-h'', ''vol'']
     = \<lparr>g_returns = [(of_char CHR ''h'', [])], g_optind = 2,
        g_argv = [''vdodumpconfig'', ''-h'', ''vol'']\<rparr>"
  by (simp add: scan_eval)

lemma example_scan_h_x:
  "scan_of example_env [''vdodumpconfig'', ''-h'', ''-x'']
     = \<lparr>g_returns = [(of_char CHR ''h'', []),
          (of_char CHR ''?'', ''vdodumpconfig: invalid option -- 'x'' @ [CHR 0x27] @ ''\<newline>'')],
        g_optind = 3, g_argv = [''vdodumpconfig'', ''-h'', ''-x'']\<rparr>"
  by (simp add: scan_eval)

lemma example_scan_x_help:
  "scan_of example_env [''vdodumpconfig'', ''-x'', ''--help'']
     = \<lparr>g_returns = [(of_char CHR ''?'',
            ''vdodumpconfig: invalid option -- 'x'' @ [CHR 0x27] @ ''\<newline>''),
          (of_char CHR ''h'', [])],
        g_optind = 3, g_argv = [''vdodumpconfig'', ''-x'', ''--help'']\<rparr>"
  by (simp add: scan_eval)

lemma example_scan_vol_help:
  "scan_of example_env [''vdodumpconfig'', ''vol'', ''--help'']
     = \<lparr>g_returns = [(of_char CHR ''h'', [])], g_optind = 2,
        g_argv = [''vdodumpconfig'', ''--help'', ''vol'']\<rparr>"
  by (simp add: scan_eval)

lemma example_run_novol:
  "run example_env [''vdodumpconfig'', ''novol''] example_disk =
    (Exit 1, (initial_world [''vdodumpconfig'', ''novol''] example_disk)
       \<lparr>trace := [Getopt (- 1), OpenLogger, MakeVDO ''novol'' True (VDO_ERROR 1),
          Stderr (load_line [''vdodumpconfig'', ''novol''] ''novol'')]\<rparr>)"
proof -
  have "load example_env (example_disk
      (g_argv (scan_of example_env [''vdodumpconfig'', ''novol'']) !
        nat (g_optind (scan_of example_env [''vdodumpconfig'', ''novol''])))) = Inl 1"
    unfolding example_scan_novol by (simp add: example_env_fields example_disk_def)
  from run_load_failed [where d=example_disk, OF _ _ this] show ?thesis
    unfolding example_scan_novol by simp
qed

lemma example_run_vol_help:
  "run example_env [''vdodumpconfig'', ''vol'', ''--help''] example_disk =
    (Exit 0, (initial_world [''vdodumpconfig'', ''vol'', ''--help''] example_disk)
       \<lparr>trace := [Getopt (of_char CHR ''h''), Stdout helpString]\<rparr>)"
  using run_help [of example_env "[''vdodumpconfig'', ''vol'', ''--help'']" "[]" "[]" example_disk]
  unfolding example_scan_vol_help by (simp add: diag_events_def)

lemma digit_char_numerals:
  "digit_char 0 = CHR ''0''" "digit_char 1 = CHR ''1''" "digit_char 2 = CHR ''2''"
  "digit_char 3 = CHR ''3''" "digit_char 4 = CHR ''4''" "digit_char 5 = CHR ''5''"
  "digit_char 6 = CHR ''6''" "digit_char 7 = CHR ''7''" "digit_char 8 = CHR ''8''"
  "digit_char 9 = CHR ''9''" "digit_char (Suc 0) = CHR ''1''"
  by ((rule of_char_eqI [where ?'a = nat], simp add: digit_char_def)+)

lemmas decimal_eval = fmt_d_def fmt_PRIu64_def decimal.simps digit_char_numerals

lemma example_run_vol:
  "run example_env [''vdodumpconfig'', ''vol''] example_disk =
    (Exit 0, (initial_world [''vdodumpconfig'', ''vol''] example_disk)
       \<lparr>next_vdo := 2,
        trace := [Getopt (- 1), OpenLogger, MakeVDO ''vol'' True VDO_SUCCESS, Deref 1, FreeVDO 1,
          Stdout ''VDOConfig:\<newline>'',
          Stdout ''  blockSize: 4096\<newline>'',
          Stdout ''  logicalBlocks: 1024\<newline>'',
          Stdout ''  physicalBlocks: 2048\<newline>'',
          Stdout ''  slabSize: 512\<newline>'',
          Stdout ''  recoveryJournalSize: 64\<newline>'',
          Stdout ''  slabJournalBlocks: 16\<newline>'']\<rparr>)"
proof -
  have "load example_env (example_disk
      (g_argv (scan_of example_env [''vdodumpconfig'', ''vol'']) !
        nat (g_optind (scan_of example_env [''vdodumpconfig'', ''vol''])))) =
      Inr \<lparr>config = example_config\<rparr>"
    unfolding example_scan_vol by (simp add: example_env_fields example_disk_def)
  from run_report [where d=example_disk, OF _ _ this] show ?thesis
    unfolding example_scan_vol
    by (simp add: example_env_fields example_config_def decimal_eval)
qed

lemma example_run_none:
  "run example_env [''vdodumpconfig''] example_disk =
    (Exit 1, (initial_world [''vdodumpconfig''] example_disk)
       \<lparr>trace := [Getopt (- 1), Stderr (usage_line [''vdodumpconfig''])]\<rparr>)"
  using run_usage [of example_env "[''vdodumpconfig'']" example_disk]
  unfolding example_scan_none by simp

lemma example_run_h:
  "run example_env [''vdodumpconfig'', ''-h''] example_disk =
    (Exit 0, (initial_world [''vdodumpconfig'', ''-h''] example_disk)
       \<lparr>trace := [Getopt (of_char CHR ''h''), Stdout helpString]\<rparr>)"
  using run_help [of example_env "[''vdodumpconfig'', ''-h'']" "[]" "[]" example_disk]
  unfolding example_scan_h by (simp add: diag_events_def)

lemma example_run_h_vol:
  "run example_env [''vdodumpconfig'', ''-h'', ''vol''] example_disk =
    (Exit 0, (initial_world [''vdodumpconfig'', ''-h'', ''vol''] example_disk)
       \<lparr>trace := [Getopt (of_char CHR ''h''), Stdout helpString]\<rparr>)"
  using run_help [of example_env "[''vdodumpconfig'', ''-h'', ''vol'']" "[]" "[]" example_disk]
  unfolding example_scan_h_vol by (simp add: diag_events_def)

lemma example_run_h_x:
  "run example_env [''vdodumpconfig'', ''-h'', ''-x''] example_disk =
    (Exit 0, (initial_world [''vdodumpconfig'', ''-h'', ''-x''] example_disk)
       \<lparr>trace := [Getopt (of_char CHR ''h''), Stdout helpString]\<rparr>)"
  using run_help [of example_env "[''vdodumpconfig'', ''-h'', ''-x'']" "[]" _ example_disk]
  unfolding example_scan_h_x by (simp add: diag_events_def)

lemma example_run_x_help:
  "run example_env [''vdodumpconfig'', ''-x'', ''--help''] example_disk =
    (Exit 1, (initial_world [''vdodumpconfig'', ''-x'', ''--help''] example_disk)
       \<lparr>trace := [Stderr (''vdodumpconfig: invalid option -- 'x'' @ [CHR 0x27] @ ''\<newline>''),
          Getopt (of_char CHR ''?''),
          Stderr (usage_line [''vdodumpconfig'', ''-x'', ''--help''])]\<rparr>)"
  using run_unrecognized [of example_env "[''vdodumpconfig'', ''-x'', ''--help'']" _ _ _ example_disk]
  unfolding example_scan_x_help by (simp add: diag_events_def)

subsection \<open>Backing stores\<close>

text \<open>
  No run changes a backing store, and neither does \<^verbatim>\<open>readVDOConfig\<close> from any state;
  an open for writing does change one on the example machine.
\<close>

lemma run_disk: "disk (snd (run env argv d)) = d"
proof (cases rule: run_cases [where env=env and argv=argv and d=d])
  case (help_flag diag rest)
  show ?thesis unfolding run_help [OF help_flag] by (simp add: initial_world_def)
next
  case (unrecognized c diag rest)
  show ?thesis unfolding run_unrecognized [OF unrecognized] by (simp add: initial_world_def)
next
  case usage
  show ?thesis unfolding run_usage [OF usage] by (simp add: initial_world_def)
next
  case (failed e)
  show ?thesis unfolding run_load_failed [where d=d, OF failed] by (simp add: initial_world_def)
next
  case (report v)
  show ?thesis unfolding run_report [where d=d, OF report] by (simp add: initial_world_def)
qed

lemma readVDOConfig_disk:
  "(case readVDOConfig env path w of Inl (t, w') \<Rightarrow> disk w' | Inr (c, w') \<Rightarrow> disk w') = disk w"
proof (cases "load env (disk w path)")
  case (Inl e)
  show ?thesis unfolding readVDOConfig_failed [OF Inl] by simp
next
  case (Inr v)
  show ?thesis unfolding readVDOConfig_loaded [OF Inr] by simp
qed

lemma writable_open_changes_disk:
  "makeVDOFromFile example_env ''vol'' False (initial_world [] example_disk) = Inr (r, w)
   \<Longrightarrow> disk w ''vol'' = None \<and> example_disk ''vol'' \<noteq> None"
  by (auto simp add: makeVDOFromFile_def example_env_fields example_disk_def initial_world_def
      emit_def)

subsection \<open>The order of the flags\<close>

lemma first_help_position:
  assumes "first_help fs < length fs"
  shows "fs ! first_help fs = of_char CHR ''h''"
    and "j < first_help fs \<Longrightarrow> fs ! j \<noteq> of_char CHR ''h''"
proof -
  from assms nth_length_takeWhile [of "\<lambda>c. c \<noteq> of_char CHR ''h''" fs]
  show "fs ! first_help fs = of_char CHR ''h''"
    unfolding first_help_def by blast
  assume "j < first_help fs"
  then have j: "j < length (takeWhile (\<lambda>c. c \<noteq> of_char CHR ''h'') fs)"
    by (simp add: first_help_def)
  then have "takeWhile (\<lambda>c. c \<noteq> of_char CHR ''h'') fs ! j
      \<in> set (takeWhile (\<lambda>c. c \<noteq> of_char CHR ''h'') fs)"
    by (rule nth_mem)
  then have "takeWhile (\<lambda>c. c \<noteq> of_char CHR ''h'') fs ! j \<noteq> of_char CHR ''h''"
    by (rule set_takeWhileD [THEN conjunct2])
  with j show "fs ! j \<noteq> of_char CHR ''h''"
    by (simp add: takeWhile_nth)
qed

lemma first_unrecognized_position:
  assumes "first_unrecognized fs < length fs"
  shows "fs ! first_unrecognized fs \<noteq> of_char CHR ''h''"
    and "j < first_unrecognized fs \<Longrightarrow> fs ! j = of_char CHR ''h''"
proof -
  from assms nth_length_takeWhile [of "\<lambda>c. c = of_char CHR ''h''" fs]
  show "fs ! first_unrecognized fs \<noteq> of_char CHR ''h''"
    unfolding first_unrecognized_def by blast
  assume "j < first_unrecognized fs"
  then have j: "j < length (takeWhile (\<lambda>c. c = of_char CHR ''h'') fs)"
    by (simp add: first_unrecognized_def)
  then have "takeWhile (\<lambda>c. c = of_char CHR ''h'') fs ! j
      \<in> set (takeWhile (\<lambda>c. c = of_char CHR ''h'') fs)"
    by (rule nth_mem)
  then have "takeWhile (\<lambda>c. c = of_char CHR ''h'') fs ! j = of_char CHR ''h''"
    by (rule set_takeWhileD [THEN conjunct2])
  with j show "fs ! j = of_char CHR ''h''"
    by (simp add: takeWhile_nth)
qed

lemma unrecognized_first:
  "first_unrecognized fs < first_help fs \<longleftrightarrow> (\<exists>c rest. fs = c # rest \<and> c \<noteq> of_char CHR ''h'')"
  by (cases fs) (simp_all add: first_unrecognized_def first_help_def)

lemma help_first:
  "first_help fs < first_unrecognized fs \<longleftrightarrow> (\<exists>rest. fs = of_char CHR ''h'' # rest)"
  by (cases fs) (auto simp add: first_unrecognized_def first_help_def)

lemma flags_Cons:
  assumes "flags env argv = c # cs"
  obtains diag rest where "g_returns (scan_of env argv) = (c, diag) # rest"
proof -
  from assms obtain r rest where r: "g_returns (scan_of env argv) = r # rest" "fst r = c"
    by (auto simp add: flags_def)
  then have "g_returns (scan_of env argv) = (c, snd r) # rest" by (cases r) simp
  then show ?thesis by (rule that)
qed

text \<open>\<^verbatim>\<open>vdodumpconfig a -h -x b\<close>: the options are moved ahead of the two positional arguments.\<close>

lemma example_scan_a_h_x_b:
  "scan_of example_env [''vdodumpconfig'', ''a'', ''-h'', ''-x'', ''b'']
     = \<lparr>g_returns = [(of_char CHR ''h'', []),
          (of_char CHR ''?'', ''vdodumpconfig: invalid option -- 'x'' @ [CHR 0x27] @ ''\<newline>'')],
        g_optind = 3, g_argv = [''vdodumpconfig'', ''-h'', ''-x'', ''a'', ''b'']\<rparr>"
  by (simp add: scan_eval)

lemma example_run_a_h_x_b:
  "run example_env [''vdodumpconfig'', ''a'', ''-h'', ''-x'', ''b''] example_disk =
    (Exit 0, (initial_world [''vdodumpconfig'', ''a'', ''-h'', ''-x'', ''b''] example_disk)
       \<lparr>trace := [Getopt (of_char CHR ''h''), Stdout helpString]\<rparr>)"
  using run_help [of example_env "[''vdodumpconfig'', ''a'', ''-h'', ''-x'', ''b'']" "[]" _
      example_disk]
  unfolding example_scan_a_h_x_b by (simp add: diag_events_def)

section \<open>The claims\<close>

text \<open>
  C1 (as amended). For every invocation that has no flags and exactly one positional
  argument, naming a valid volume, the program writes to standard output exactly the
  header line \<^verbatim>\<open>VDOConfig:\<close> followed by the six labelled field lines in the order
  blockSize, logicalBlocks, physicalBlocks, slabSize, recoveryJournalSize,
  slabJournalBlocks (each indented two spaces, as \<^verbatim>\<open><name>: <value>\<close>), and the process
  exits with code 0. "No flags" is what the claim leaves out: a flag ahead of the path
  ends the process in \<^verbatim>\<open>processArgs\<close> before the volume is read.
\<close>

theorem C1_report_on_single_path:
  assumes "flags env argv = []"
    and "positional_args env argv = [path]"
    and "load env (d path) = Inr v"
  shows "fst (run env argv d) = Exit 0
    \<and> stdout_of (trace (snd (run env argv d))) = report_text (printed_values env (config v))"
proof -
  from assms(1) have r: "g_returns (scan_of env argv) = []"
    by (simp add: flags_def)
  from assms(2) positional_one_iff [of env argv]
  have o: "g_optind (scan_of env argv) = int (length argv) - 1" by simp
  from assms(3) positional_path [OF assms(2)]
  have l: "load env (d (g_argv (scan_of env argv) ! nat (g_optind (scan_of env argv)))) = Inr v"
    by simp
  show ?thesis
    unfolding run_report [where d=d, OF r o l]
    by (simp add: report_text_def printed_values_def labels_def field_line_def)
qed

text \<open>
  The witness of C1 is the example of the specification: the volume with
  logicalBlocks 1024, physicalBlocks 2048, slabSize 512, recoveryJournalSize 64,
  slabJournalBlocks 16, and a block size of 4096.
\<close>

theorem C1_report_on_single_path_witness:
  "flags example_env [''vdodumpconfig'', ''vol''] = []
   \<and> positional_args example_env [''vdodumpconfig'', ''vol''] = [''vol'']
   \<and> load example_env (example_disk ''vol'') = Inr \<lparr>config = example_config\<rparr>
   \<and> fst (run example_env [''vdodumpconfig'', ''vol''] example_disk) = Exit 0
   \<and> stdout_of (trace (snd (run example_env [''vdodumpconfig'', ''vol''] example_disk))) =
       ''VDOConfig:\<newline>'' @
       ''  blockSize: 4096\<newline>'' @
       ''  logicalBlocks: 1024\<newline>'' @
       ''  physicalBlocks: 2048\<newline>'' @
       ''  slabSize: 512\<newline>'' @
       ''  recoveryJournalSize: 64\<newline>'' @
       ''  slabJournalBlocks: 16\<newline>''"
proof -
  have f: "flags example_env [''vdodumpconfig'', ''vol''] = []"
    by (simp add: flags_def example_scan_vol)
  have p: "positional_args example_env [''vdodumpconfig'', ''vol''] = [''vol'']"
    by (simp add: positional_args_def example_scan_vol)
  have l: "load example_env (example_disk ''vol'') = Inr \<lparr>config = example_config\<rparr>"
    by (simp add: example_env_fields example_disk_def)
  have t: "report_text (printed_values example_env (config \<lparr>config = example_config\<rparr>)) =
       ''VDOConfig:\<newline>'' @
       ''  blockSize: 4096\<newline>'' @
       ''  logicalBlocks: 1024\<newline>'' @
       ''  physicalBlocks: 2048\<newline>'' @
       ''  slabSize: 512\<newline>'' @
       ''  recoveryJournalSize: 64\<newline>'' @
       ''  slabJournalBlocks: 16\<newline>''"
    by (simp add: report_text_def printed_values_def labels_def field_line_def
        example_env_fields example_config_def decimal_eval)
  from C1_report_on_single_path [where d=example_disk, OF f p l] f p l t show ?thesis by simp
qed

text \<open>
  C1 as stated fails: \<^verbatim>\<open>vdodumpconfig -h vol\<close> has exactly one positional argument, and
  it names a valid volume, yet standard output is the help text and not the report.
\<close>

theorem C1_counterexample:
  "positional_args example_env [''vdodumpconfig'', ''-h'', ''vol''] = [''vol'']
   \<and> load example_env (example_disk ''vol'') = Inr \<lparr>config = example_config\<rparr>
   \<and> stdout_of (trace (snd (run example_env [''vdodumpconfig'', ''-h'', ''vol''] example_disk)))
       = helpString
   \<and> helpString \<noteq> report_text (printed_values example_env example_config)"
proof -
  have p: "positional_args example_env [''vdodumpconfig'', ''-h'', ''vol''] = [''vol'']"
    by (simp add: positional_args_def example_scan_h_vol)
  have l: "load example_env (example_disk ''vol'') = Inr \<lparr>config = example_config\<rparr>"
    by (simp add: example_env_fields example_disk_def)
  have s: "stdout_of (trace (snd (run example_env [''vdodumpconfig'', ''-h'', ''vol''] example_disk)))
       = helpString"
    unfolding example_run_h_vol by simp
  have n: "helpString \<noteq> report_text (printed_values example_env example_config)"
    by (simp add: helpString_def report_text_def)
  from p l s n show ?thesis by simp
qed

text \<open>
  C2. For every path for which the volume-load operation fails (\<^verbatim>\<open>makeVDOFromFile\<close>
  returns a result other than \<^verbatim>\<open>VDO_SUCCESS\<close>), the process terminates with exit code 1
  and a diagnostic that names the backing-store path, and nothing is written to
  standard output: no part of the report, and no \<^verbatim>\<open>VDOConfig:\<close> header.
\<close>

theorem C2_load_failure_exits_1:
  assumes "MakeVDO path readOnly result \<in> set (trace (snd (run env argv d)))"
    and "result \<noteq> VDO_SUCCESS"
  shows "fst (run env argv d) = Exit 1
    \<and> stderr_of (trace (snd (run env argv d))) = load_line argv path
    \<and> stdout_of (trace (snd (run env argv d))) = []"
proof (cases rule: run_cases [where env=env and argv=argv and d=d])
  case (help_flag diag rest)
  from assms(1) show ?thesis
    unfolding run_help [OF help_flag] by (simp add: diag_events_facts)
next
  case (unrecognized c diag rest)
  from assms(1) show ?thesis
    unfolding run_unrecognized [OF unrecognized] by (simp add: diag_events_facts)
next
  case usage
  from assms(1) show ?thesis
    unfolding run_usage [OF usage] by simp
next
  case (failed e)
  from assms(1) show ?thesis
    unfolding run_load_failed [where d=d, OF failed] by simp
next
  case (report v)
  from assms show ?thesis
    unfolding run_report [where d=d, OF report] by simp
qed

theorem C2_load_failure_exits_1_witness:
  "MakeVDO ''novol'' True (VDO_ERROR 1)
     \<in> set (trace (snd (run example_env [''vdodumpconfig'', ''novol''] example_disk)))
   \<and> VDO_ERROR 1 \<noteq> VDO_SUCCESS
   \<and> fst (run example_env [''vdodumpconfig'', ''novol''] example_disk) = Exit 1
   \<and> stderr_of (trace (snd (run example_env [''vdodumpconfig'', ''novol''] example_disk)))
       = ''vdodumpconfig: Could not load VDO from 'novol'' @ [CHR 0x27] @ ''\<newline>''
   \<and> stdout_of (trace (snd (run example_env [''vdodumpconfig'', ''novol''] example_disk))) = []"
proof -
  have m: "MakeVDO ''novol'' True (VDO_ERROR 1)
     \<in> set (trace (snd (run example_env [''vdodumpconfig'', ''novol''] example_disk)))"
    unfolding example_run_novol by simp
  have n: "VDO_ERROR 1 \<noteq> VDO_SUCCESS" by simp
  have l: "load_line [''vdodumpconfig'', ''novol''] ''novol''
      = ''vdodumpconfig: Could not load VDO from 'novol'' @ [CHR 0x27] @ ''\<newline>''"
    by (simp add: load_line_def short_name_def)
  from C2_load_failure_exits_1 [OF m n] m n l show ?thesis by simp
qed

text \<open>
  C3 (as amended). For every invocation in which flag parsing does not recognize
  \<^verbatim>\<open>--help\<close> or \<^verbatim>\<open>-h\<close>, and whose command line, after flag parsing, has zero positional
  arguments or more than one, the process exits with code 1, writes the usage message
  to standard error (after the diagnostic of \<^verbatim>\<open>getopt_long\<close>, if there is one), and
  writes nothing to standard output.
\<close>

theorem C3_usage_error_on_positional_count:
  assumes "Getopt (of_char CHR ''h'') \<notin> set (trace (snd (run env argv d)))"
    and "length (positional_args env argv) \<noteq> 1"
  shows "fst (run env argv d) = Exit 1
    \<and> (\<exists>diag. stderr_of (trace (snd (run env argv d))) = diag @ usage_line argv)
    \<and> stdout_of (trace (snd (run env argv d))) = []"
proof (cases rule: run_cases [where env=env and argv=argv and d=d])
  case (help_flag diag rest)
  from assms(1) show ?thesis
    unfolding run_help [OF help_flag] by simp
next
  case (unrecognized c diag rest)
  show ?thesis
    unfolding run_unrecognized [OF unrecognized]
    by (simp add: diag_events_facts stdout_of_append stderr_of_append)
next
  case usage
  show ?thesis
    unfolding run_usage [OF usage] by simp
next
  case (failed e)
  from assms(2) failed(2) positional_one_iff [of env argv] show ?thesis by simp
next
  case (report v)
  from assms(2) report(2) positional_one_iff [of env argv] show ?thesis by simp
qed

theorem C3_usage_error_on_positional_count_witness:
  "Getopt (of_char CHR ''h'')
     \<notin> set (trace (snd (run example_env [''vdodumpconfig''] example_disk)))
   \<and> length (positional_args example_env [''vdodumpconfig'']) = 0
   \<and> fst (run example_env [''vdodumpconfig''] example_disk) = Exit 1
   \<and> stderr_of (trace (snd (run example_env [''vdodumpconfig''] example_disk)))
       = ''vdodumpconfig: Usage: vdodumpconfig [--help] vdoBacking\<newline>\<newline>''
   \<and> stdout_of (trace (snd (run example_env [''vdodumpconfig''] example_disk))) = []"
proof -
  have g: "Getopt (of_char CHR ''h'')
     \<notin> set (trace (snd (run example_env [''vdodumpconfig''] example_disk)))"
    unfolding example_run_none by simp
  have p: "length (positional_args example_env [''vdodumpconfig'']) = 0"
    by (simp add: positional_args_def example_scan_none)
  then have p': "length (positional_args example_env [''vdodumpconfig'']) \<noteq> 1" by simp
  have e: "stderr_of (trace (snd (run example_env [''vdodumpconfig''] example_disk)))
       = ''vdodumpconfig: Usage: vdodumpconfig [--help] vdoBacking\<newline>\<newline>''"
    unfolding example_run_none by (simp add: usage_line_def short_name_def arg0_def)
  from C3_usage_error_on_positional_count [OF g p'] g p e show ?thesis by simp
qed

text \<open>
  C3 as stated fails: the command line of \<^verbatim>\<open>vdodumpconfig -h\<close> has zero positional
  arguments after flag parsing, and the process exits with code 0, with the help text
  on standard output and nothing on standard error.
\<close>

theorem C3_counterexample:
  "length (positional_args example_env [''vdodumpconfig'', ''-h'']) = 0
   \<and> fst (run example_env [''vdodumpconfig'', ''-h''] example_disk) = Exit 0
   \<and> stderr_of (trace (snd (run example_env [''vdodumpconfig'', ''-h''] example_disk))) = []
   \<and> stdout_of (trace (snd (run example_env [''vdodumpconfig'', ''-h''] example_disk)))
       = helpString"
proof -
  have p: "length (positional_args example_env [''vdodumpconfig'', ''-h'']) = 0"
    by (simp add: positional_args_def example_scan_h)
  then show ?thesis
    unfolding example_run_h by simp
qed

text \<open>
  C4. In the rendered report every printed value is the unsigned decimal representation
  of the corresponding field or constant: a non-empty string of decimal digits with no
  leading zero (but for zero itself) whose value is the number. The five fields are
  unsigned 64-bit values printed with \<^verbatim>\<open>PRIu64\<close>. The block size is printed with
  \<^verbatim>\<open>%d\<close>, which prints an \<^verbatim>\<open>int\<close>; \<^verbatim>\<open>VDO_BLOCK_SIZE\<close> is declared outside the sources,
  and what is printed is its unsigned decimal representation for every value of the
  constant that is not negative, as a block size is.
\<close>

theorem C4_values_are_unsigned_decimal:
  assumes "flags env argv = []"
    and "positional_args env argv = [path]"
    and "load env (d path) = Inr v"
    and "0 \<le> sint (VDO_BLOCK_SIZE env)"
  shows "stdout_of (trace (snd (run env argv d))) = report_text (printed_values env (config v))
    \<and> list_all2 unsigned_decimal (reported_numbers env (config v))
          (printed_values env (config v))"
proof -
  from assms(1) have r: "g_returns (scan_of env argv) = []"
    by (simp add: flags_def)
  from assms(2) positional_one_iff [of env argv]
  have o: "g_optind (scan_of env argv) = int (length argv) - 1" by simp
  from assms(3) positional_path [OF assms(2)]
  have l: "load env (d (g_argv (scan_of env argv) ! nat (g_optind (scan_of env argv)))) = Inr v"
    by simp
  have "stdout_of (trace (snd (run env argv d))) = report_text (printed_values env (config v))"
    unfolding run_report [where d=d, OF r o l]
    by (simp add: report_text_def printed_values_def labels_def field_line_def)
  moreover have "list_all2 unsigned_decimal (reported_numbers env (config v))
      (printed_values env (config v))"
    by (simp add: reported_numbers_def printed_values_def fmt_PRIu64_def
        fmt_d_nonneg [OF assms(4)] unsigned_decimal_decimal)
  ultimately show ?thesis by simp
qed

theorem C4_values_are_unsigned_decimal_witness:
  "flags example_env [''vdodumpconfig'', ''vol''] = []
   \<and> positional_args example_env [''vdodumpconfig'', ''vol''] = [''vol'']
   \<and> load example_env (example_disk ''vol'') = Inr \<lparr>config = example_config\<rparr>
   \<and> 0 \<le> sint (VDO_BLOCK_SIZE example_env)
   \<and> printed_values example_env example_config
       = [''4096'', ''1024'', ''2048'', ''512'', ''64'', ''16'']
   \<and> reported_numbers example_env example_config = [4096, 1024, 2048, 512, 64, 16]
   \<and> list_all2 unsigned_decimal [4096, 1024, 2048, 512, 64, 16]
        [''4096'', ''1024'', ''2048'', ''512'', ''64'', ''16'']"
proof -
  have f: "flags example_env [''vdodumpconfig'', ''vol''] = []"
    by (simp add: flags_def example_scan_vol)
  have p: "positional_args example_env [''vdodumpconfig'', ''vol''] = [''vol'']"
    by (simp add: positional_args_def example_scan_vol)
  have l: "load example_env (example_disk ''vol'') = Inr \<lparr>config = example_config\<rparr>"
    by (simp add: example_env_fields example_disk_def)
  have s: "0 \<le> sint (VDO_BLOCK_SIZE example_env)"
    by (simp add: example_env_fields)
  have v: "printed_values example_env example_config
       = [''4096'', ''1024'', ''2048'', ''512'', ''64'', ''16'']"
    by (simp add: printed_values_def example_env_fields example_config_def decimal_eval)
  have n: "reported_numbers example_env example_config = [4096, 1024, 2048, 512, 64, 16]"
    by (simp add: reported_numbers_def example_env_fields example_config_def)
  from C4_values_are_unsigned_decimal [where d=example_disk, OF f p l s] f p l s v n
  show ?thesis by simp
qed

text \<open>
  C5. For every invocation in which \<^verbatim>\<open>--help\<close> or \<^verbatim>\<open>-h\<close> is recognized during flag parsing
  (\<^verbatim>\<open>getopt_long\<close> returns \<^verbatim>\<open>'h'\<close> to the loop of \<^verbatim>\<open>processArgs\<close>), the program prints
  the fixed help text to standard output and terminates with exit code 0, without any
  access to a volume.
\<close>

theorem C5_help_prints_help_and_exits_0:
  assumes "Getopt (of_char CHR ''h'') \<in> set (trace (snd (run env argv d)))"
  shows "fst (run env argv d) = Exit 0
    \<and> stdout_of (trace (snd (run env argv d))) = helpString
    \<and> filter volume_access (trace (snd (run env argv d))) = []"
proof (cases rule: run_cases [where env=env and argv=argv and d=d])
  case (help_flag diag rest)
  show ?thesis
    unfolding run_help [OF help_flag]
    by (simp add: diag_events_facts stdout_of_append)
next
  case (unrecognized c diag rest)
  from assms show ?thesis
    unfolding run_unrecognized [OF unrecognized]
    using unrecognized(2) by (simp add: diag_events_facts)
next
  case usage
  from assms show ?thesis
    unfolding run_usage [OF usage] by simp
next
  case (failed e)
  from assms show ?thesis
    unfolding run_load_failed [where d=d, OF failed] by simp
next
  case (report v)
  from assms show ?thesis
    unfolding run_report [where d=d, OF report] by simp
qed

theorem C5_help_prints_help_and_exits_0_witness:
  "Getopt (of_char CHR ''h'')
     \<in> set (trace (snd (run example_env [''vdodumpconfig'', ''vol'', ''--help''] example_disk)))
   \<and> fst (run example_env [''vdodumpconfig'', ''vol'', ''--help''] example_disk) = Exit 0
   \<and> stdout_of (trace (snd (run example_env [''vdodumpconfig'', ''vol'', ''--help''] example_disk)))
       = helpString
   \<and> filter volume_access
        (trace (snd (run example_env [''vdodumpconfig'', ''vol'', ''--help''] example_disk))) = []"
proof -
  have g: "Getopt (of_char CHR ''h'')
     \<in> set (trace (snd (run example_env [''vdodumpconfig'', ''vol'', ''--help''] example_disk)))"
    unfolding example_run_vol_help by simp
  from C5_help_prints_help_and_exits_0 [OF g] g show ?thesis by simp
qed

text \<open>
  C6. On every execution that reaches a successful open of the backing store at a path,
  the configuration is copied out of the \<^verbatim>\<open>VDO\<close> (\<open>Deref\<close>) immediately before the
  \<^verbatim>\<open>VDO\<close> is closed (\<open>FreeVDO\<close>, of the same object); the close is performed exactly
  once; nothing is written to standard output before the close, and all that follows
  the close is the writing of the report, at which time no \<^verbatim>\<open>VDO\<close> is allocated any
  more. What was copied out is the configuration of the volume that was opened: the
  report written after the close is the report of the configuration the backing store
  at that path holds, and the process exits with code 0.
\<close>

theorem C6_copy_close_render_order:
  assumes "MakeVDO path readOnly VDO_SUCCESS \<in> set (trace (snd (run env argv d)))"
  shows "\<exists>a pre post v.
      load env (d path) = Inr v
    \<and> trace (snd (run env argv d)) = pre @ [Deref a, FreeVDO a] @ post
    \<and> filter closes pre = [] \<and> filter writes_stdout pre = []
    \<and> filter closes post = [] \<and> list_all writes_stdout post
    \<and> stdout_of post = report_text (printed_values env (config v))
    \<and> length (filter closes (trace (snd (run env argv d)))) = 1
    \<and> vdos (snd (run env argv d)) = Map.empty
    \<and> fst (run env argv d) = Exit 0"
proof (cases rule: run_cases [where env=env and argv=argv and d=d])
  case (help_flag diag rest)
  from assms show ?thesis
    unfolding run_help [OF help_flag] by (simp add: diag_events_facts)
next
  case (unrecognized c diag rest)
  from assms show ?thesis
    unfolding run_unrecognized [OF unrecognized] by (simp add: diag_events_facts)
next
  case usage
  from assms show ?thesis
    unfolding run_usage [OF usage] by simp
next
  case (failed e)
  from assms show ?thesis
    unfolding run_load_failed [where d=d, OF failed] by simp
next
  case (report v)
  let ?p = "g_argv (scan_of env argv) ! nat (g_optind (scan_of env argv))"
  let ?pre = "[Getopt (- 1), OpenLogger, MakeVDO ?p True VDO_SUCCESS]"
  let ?post = "[Stdout ''VDOConfig:\<newline>'',
      Stdout (''  blockSize: '' @ fmt_d (VDO_BLOCK_SIZE env) @ ''\<newline>''),
      Stdout (''  logicalBlocks: '' @ fmt_PRIu64 (logicalBlocks (config v)) @ ''\<newline>''),
      Stdout (''  physicalBlocks: '' @ fmt_PRIu64 (physicalBlocks (config v)) @ ''\<newline>''),
      Stdout (''  slabSize: '' @ fmt_PRIu64 (slabSize (config v)) @ ''\<newline>''),
      Stdout (''  recoveryJournalSize: '' @ fmt_PRIu64 (recoveryJournalSize (config v))
                @ ''\<newline>''),
      Stdout (''  slabJournalBlocks: '' @ fmt_PRIu64 (slabJournalBlocks (config v))
                @ ''\<newline>'')]"
  from assms have "path = ?p"
    unfolding run_report [where d=d, OF report] by simp
  with report(3) have l: "load env (d path) = Inr v" by simp
  have s: "stdout_of ?post = report_text (printed_values env (config v))"
    by (simp add: report_text_def printed_values_def labels_def field_line_def)
  have "trace (snd (run env argv d)) = ?pre @ [Deref 1, FreeVDO 1] @ ?post
    \<and> filter closes ?pre = [] \<and> filter writes_stdout ?pre = []
    \<and> filter closes ?post = [] \<and> list_all writes_stdout ?post
    \<and> length (filter closes (trace (snd (run env argv d)))) = 1
    \<and> vdos (snd (run env argv d)) = Map.empty
    \<and> fst (run env argv d) = Exit 0"
    unfolding run_report [where d=d, OF report] by (simp add: initial_world_def)
  with l s show ?thesis by blast
qed

text \<open>
  The witness of C6: the run on the example volume, whose report after the close is the
  report of the configuration the volume holds.
\<close>

theorem C6_copy_close_render_order_witness:
  "MakeVDO ''vol'' True VDO_SUCCESS
     \<in> set (trace (snd (run example_env [''vdodumpconfig'', ''vol''] example_disk)))
   \<and> load example_env (example_disk ''vol'') = Inr \<lparr>config = example_config\<rparr>
   \<and> (\<exists>a pre post.
      trace (snd (run example_env [''vdodumpconfig'', ''vol''] example_disk))
        = pre @ [Deref a, FreeVDO a] @ post
    \<and> filter closes pre = [] \<and> filter writes_stdout pre = []
    \<and> filter closes post = [] \<and> list_all writes_stdout post
    \<and> stdout_of post =
       ''VDOConfig:\<newline>'' @
       ''  blockSize: 4096\<newline>'' @
       ''  logicalBlocks: 1024\<newline>'' @
       ''  physicalBlocks: 2048\<newline>'' @
       ''  slabSize: 512\<newline>'' @
       ''  recoveryJournalSize: 64\<newline>'' @
       ''  slabJournalBlocks: 16\<newline>''
    \<and> length (filter closes
         (trace (snd (run example_env [''vdodumpconfig'', ''vol''] example_disk)))) = 1
    \<and> vdos (snd (run example_env [''vdodumpconfig'', ''vol''] example_disk)) = Map.empty
    \<and> fst (run example_env [''vdodumpconfig'', ''vol''] example_disk) = Exit 0)"
proof -
  have m: "MakeVDO ''vol'' True VDO_SUCCESS
     \<in> set (trace (snd (run example_env [''vdodumpconfig'', ''vol''] example_disk)))"
    unfolding example_run_vol by simp
  have l: "load example_env (example_disk ''vol'') = Inr \<lparr>config = example_config\<rparr>"
    by (simp add: example_env_fields example_disk_def)
  have t: "report_text (printed_values example_env example_config) =
       ''VDOConfig:\<newline>'' @
       ''  blockSize: 4096\<newline>'' @
       ''  logicalBlocks: 1024\<newline>'' @
       ''  physicalBlocks: 2048\<newline>'' @
       ''  slabSize: 512\<newline>'' @
       ''  recoveryJournalSize: 64\<newline>'' @
       ''  slabJournalBlocks: 16\<newline>''"
    by (simp add: report_text_def printed_values_def labels_def field_line_def
        example_env_fields example_config_def decimal_eval)
  from C6_copy_close_render_order [OF m] obtain a pre post v where
    v: "load example_env (example_disk ''vol'') = Inr v"
    and r: "trace (snd (run example_env [''vdodumpconfig'', ''vol''] example_disk))
        = pre @ [Deref a, FreeVDO a] @ post"
      "filter closes pre = []" "filter writes_stdout pre = []"
      "filter closes post = []" "list_all writes_stdout post"
      "length (filter closes
         (trace (snd (run example_env [''vdodumpconfig'', ''vol''] example_disk)))) = 1"
      "vdos (snd (run example_env [''vdodumpconfig'', ''vol''] example_disk)) = Map.empty"
      "fst (run example_env [''vdodumpconfig'', ''vol''] example_disk) = Exit 0"
    and s: "stdout_of post = report_text (printed_values example_env (config v))"
    by blast
  from v l have "Inr v = (Inr \<lparr>config = example_config\<rparr> :: nat + VDO)"
    by (rule trans [OF sym])
  then have "v = \<lparr>config = example_config\<rparr>" by (simp only: sum.inject)
  then have "config v = example_config" by simp
  with s t have "stdout_of post =
       ''VDOConfig:\<newline>'' @
       ''  blockSize: 4096\<newline>'' @
       ''  logicalBlocks: 1024\<newline>'' @
       ''  physicalBlocks: 2048\<newline>'' @
       ''  slabSize: 512\<newline>'' @
       ''  recoveryJournalSize: 64\<newline>'' @
       ''  slabJournalBlocks: 16\<newline>''"
    by (simp only:)
  with m l r show ?thesis by blast
qed

text \<open>
  C7 (as amended). For every invocation in which flag parsing comes upon an unrecognized
  flag (\<^verbatim>\<open>getopt_long\<close> returns to the loop of \<^verbatim>\<open>processArgs\<close> a value that is neither
  \<^verbatim>\<open>'h'\<close> nor the end marker \<open>-1\<close>), the process terminates with exit code 1 and writes
  the one-line usage message to standard error, after the diagnostic of
  \<^verbatim>\<open>getopt_long\<close>; nothing is written to standard output.
\<close>

theorem C7_unrecognized_flag_usage_error:
  assumes "Getopt c \<in> set (trace (snd (run env argv d)))"
    and "c \<noteq> of_char CHR ''h''"
    and "c \<noteq> - 1"
  shows "fst (run env argv d) = Exit 1
    \<and> (\<exists>diag. stderr_of (trace (snd (run env argv d))) = diag @ usage_line argv)
    \<and> stdout_of (trace (snd (run env argv d))) = []"
proof (cases rule: run_cases [where env=env and argv=argv and d=d])
  case (help_flag diag rest)
  from assms show ?thesis
    unfolding run_help [OF help_flag] by (simp add: diag_events_facts)
next
  case (unrecognized c' diag rest)
  show ?thesis
    unfolding run_unrecognized [OF unrecognized]
    by (simp add: diag_events_facts stdout_of_append stderr_of_append)
next
  case usage
  from assms show ?thesis
    unfolding run_usage [OF usage] by simp
next
  case (failed e)
  from assms show ?thesis
    unfolding run_load_failed [where d=d, OF failed] by simp
next
  case (report v)
  from assms show ?thesis
    unfolding run_report [where d=d, OF report] by simp
qed

theorem C7_unrecognized_flag_usage_error_witness:
  "Getopt (of_char CHR ''?'')
     \<in> set (trace (snd (run example_env [''vdodumpconfig'', ''-x'', ''--help''] example_disk)))
   \<and> (of_char CHR ''?'' :: int) \<noteq> of_char CHR ''h''
   \<and> (of_char CHR ''?'' :: int) \<noteq> - 1
   \<and> fst (run example_env [''vdodumpconfig'', ''-x'', ''--help''] example_disk) = Exit 1
   \<and> stderr_of (trace (snd (run example_env [''vdodumpconfig'', ''-x'', ''--help''] example_disk)))
       = (''vdodumpconfig: invalid option -- 'x'' @ [CHR 0x27] @ ''\<newline>'') @
         ''vdodumpconfig: Usage: vdodumpconfig [--help] vdoBacking\<newline>\<newline>''
   \<and> stdout_of (trace (snd (run example_env [''vdodumpconfig'', ''-x'', ''--help''] example_disk)))
       = []"
proof -
  have g: "Getopt (of_char CHR ''?'')
     \<in> set (trace (snd (run example_env [''vdodumpconfig'', ''-x'', ''--help''] example_disk)))"
    unfolding example_run_x_help by simp
  have n: "(of_char CHR ''?'' :: int) \<noteq> of_char CHR ''h''" by simp
  have m: "(of_char CHR ''?'' :: int) \<noteq> - 1" by simp
  have e: "stderr_of (trace (snd (run example_env [''vdodumpconfig'', ''-x'', ''--help''] example_disk)))
       = (''vdodumpconfig: invalid option -- 'x'' @ [CHR 0x27] @ ''\<newline>'') @
         ''vdodumpconfig: Usage: vdodumpconfig [--help] vdoBacking\<newline>\<newline>''"
    unfolding example_run_x_help by (simp add: usage_line_def short_name_def arg0_def)
  from C7_unrecognized_flag_usage_error [OF g n m] g e show ?thesis by simp
qed

text \<open>
  C7 as stated fails: \<^verbatim>\<open>vdodumpconfig -h -x\<close> contains the unrecognized flag \<^verbatim>\<open>-x\<close>, and
  the process exits with code 0 and writes nothing to standard error, because \<^verbatim>\<open>-h\<close>
  comes first.
\<close>

theorem C7_counterexample:
  "of_char CHR ''?'' \<in> set (flags example_env [''vdodumpconfig'', ''-h'', ''-x''])
   \<and> fst (run example_env [''vdodumpconfig'', ''-h'', ''-x''] example_disk) = Exit 0
   \<and> stderr_of (trace (snd (run example_env [''vdodumpconfig'', ''-h'', ''-x''] example_disk)))
       = []"
proof -
  have f: "of_char CHR ''?'' \<in> set (flags example_env [''vdodumpconfig'', ''-h'', ''-x''])"
    by (simp add: flags_def example_scan_h_x)
  then show ?thesis
    unfolding example_run_h_x by simp
qed

text \<open>
  C8. For every backing-store path, the volume is opened in read-only mode: every call of
  \<^verbatim>\<open>makeVDOFromFile\<close> that a run makes has the read-only flag set. No execution path
  writes to a backing store: when a run ends, the content of every backing store is
  what it was when the run began.
\<close>

theorem C8_read_only_and_disk_unchanged:
  "list_all read_only_open (trace (snd (run env argv d))) \<and> disk (snd (run env argv d)) = d"
proof (cases rule: run_cases [where env=env and argv=argv and d=d])
  case (help_flag diag rest)
  show ?thesis
    unfolding run_help [OF help_flag] by (simp add: diag_events_facts initial_world_def)
next
  case (unrecognized c diag rest)
  show ?thesis
    unfolding run_unrecognized [OF unrecognized]
    by (simp add: diag_events_facts initial_world_def)
next
  case usage
  show ?thesis
    unfolding run_usage [OF usage] by (simp add: initial_world_def)
next
  case (failed e)
  show ?thesis
    unfolding run_load_failed [where d=d, OF failed] by (simp add: initial_world_def)
next
  case (report v)
  show ?thesis
    unfolding run_report [where d=d, OF report] by (simp add: initial_world_def)
qed

text \<open>
  C9. The exit code and the content of standard output are a function of the argument
  list and of the persisted configuration of the volumes the arguments name: two runs
  with the same arguments against backing stores that agree on those (whether the
  volume loads, and its configuration if it does) end with the same exit code and
  byte-identical standard output. A second run against the backing stores as the first
  run left them gives the same again.
\<close>

theorem C9_output_is_deterministic:
  assumes "\<forall>p\<in>set argv. persisted_config env d p = persisted_config env d' p"
  shows "observable (run env argv d') = observable (run env argv d)
    \<and> observable (run env argv (disk (snd (run env argv d)))) = observable (run env argv d)"
proof -
  have "observable (run env argv d') = observable (run env argv d)"
  proof (cases rule: run_cases [where env=env and argv=argv and d=d])
    case (help_flag diag rest)
    show ?thesis
      unfolding run_help [OF help_flag] by (simp add: observable_def)
  next
    case (unrecognized c diag rest)
    show ?thesis
      unfolding run_unrecognized [OF unrecognized] by (simp add: observable_def)
  next
    case usage
    show ?thesis
      unfolding run_usage [OF usage] by (simp add: observable_def)
  next
    case (failed e)
    let ?p = "g_argv (scan_of env argv) ! nat (g_optind (scan_of env argv))"
    from path_in_argv [OF failed(2)] assms
    have "persisted_config env d' ?p = persisted_config env d ?p" by simp
    with failed(3) obtain e' where e': "load env (d' ?p) = Inl e'"
      by (cases "load env (d' ?p)") (simp_all add: persisted_config_def)
    show ?thesis
      unfolding run_load_failed [where d=d, OF failed]
        run_load_failed [where d=d', OF failed(1,2) e']
      by (simp add: observable_def)
  next
    case (report v)
    let ?p = "g_argv (scan_of env argv) ! nat (g_optind (scan_of env argv))"
    from path_in_argv [OF report(2)] assms
    have "persisted_config env d' ?p = persisted_config env d ?p" by simp
    with report(3) obtain v' where v': "load env (d' ?p) = Inr v'" "config v' = config v"
      by (cases "load env (d' ?p)") (simp_all add: persisted_config_def)
    show ?thesis
      unfolding run_report [where d=d, OF report]
        run_report [where d=d', OF report(1,2) v'(1)]
      by (simp add: observable_def v'(2))
  qed
  then show ?thesis by (simp add: run_disk)
qed

text \<open>
  The witness of C9: two backing stores that differ at a path the arguments do not name.
\<close>

theorem C9_output_is_deterministic_witness:
  "persisted_config example_env example_disk ''vdodumpconfig''
     = persisted_config example_env other_disk ''vdodumpconfig''
   \<and> persisted_config example_env example_disk ''vol''
     = persisted_config example_env other_disk ''vol''
   \<and> other_disk ''other'' \<noteq> example_disk ''other''
   \<and> observable (run example_env [''vdodumpconfig'', ''vol''] other_disk)
       = observable (run example_env [''vdodumpconfig'', ''vol''] example_disk)
   \<and> observable (run example_env [''vdodumpconfig'', ''vol'']
         (disk (snd (run example_env [''vdodumpconfig'', ''vol''] example_disk))))
       = observable (run example_env [''vdodumpconfig'', ''vol''] example_disk)
   \<and> fst (observable (run example_env [''vdodumpconfig'', ''vol''] example_disk)) = Exit 0"
proof -
  have a1: "persisted_config example_env example_disk ''vdodumpconfig''
     = persisted_config example_env other_disk ''vdodumpconfig''"
    by (simp add: persisted_config_def example_env_fields example_disk_def other_disk_def)
  have a2: "persisted_config example_env example_disk ''vol''
     = persisted_config example_env other_disk ''vol''"
    by (simp add: persisted_config_def example_env_fields example_disk_def other_disk_def)
  from a1 a2 have a: "\<forall>p\<in>set [''vdodumpconfig'', ''vol''].
      persisted_config example_env example_disk p = persisted_config example_env other_disk p"
    by simp
  have b: "other_disk ''other'' \<noteq> example_disk ''other''"
    by (simp add: example_disk_def other_disk_def)
  have c: "fst (observable (run example_env [''vdodumpconfig'', ''vol''] example_disk)) = Exit 0"
    unfolding example_run_vol by (simp add: observable_def)
  from C9_output_is_deterministic [OF a] a1 a2 b c show ?thesis by simp
qed

text \<open>
  C10. The help flag short-circuits usage validation only if it is encountered before
  any unrecognized flag, in the order in which \<^verbatim>\<open>getopt_long\<close> returns the flags. With
  \<open>first_unrecognized\<close> and \<open>first_help\<close> the positions of the first unrecognized flag and
  of the first \<^verbatim>\<open>--help\<close>/\<^verbatim>\<open>-h\<close> in that order: when an unrecognized flag precedes the
  help flag, the process exits with code 1 and the help text is not printed (nothing is
  written to standard output); when the help flag precedes every unrecognized flag, the
  process prints the help text and exits with code 0, however many positional
  arguments there are.
\<close>

theorem C10_help_precedence:
  "(first_unrecognized (flags env argv) < first_help (flags env argv) \<longrightarrow>
      fst (run env argv d) = Exit 1 \<and> stdout_of (trace (snd (run env argv d))) = [])
   \<and> (first_help (flags env argv) < first_unrecognized (flags env argv) \<longrightarrow>
      fst (run env argv d) = Exit 0 \<and> stdout_of (trace (snd (run env argv d))) = helpString)"
proof (intro conjI impI)
  assume "first_unrecognized (flags env argv) < first_help (flags env argv)"
  then obtain c cs where f: "flags env argv = c # cs" and c: "c \<noteq> of_char CHR ''h''"
    unfolding unrecognized_first by blast
  from f obtain diag rest where r: "g_returns (scan_of env argv) = (c, diag) # rest"
    by (rule flags_Cons)
  show "fst (run env argv d) = Exit 1" "stdout_of (trace (snd (run env argv d))) = []"
    unfolding run_unrecognized [OF r c]
    by (simp_all add: diag_events_facts stdout_of_append)
next
  assume "first_help (flags env argv) < first_unrecognized (flags env argv)"
  then obtain cs where f: "flags env argv = of_char CHR ''h'' # cs"
    unfolding help_first by blast
  from f obtain diag rest
    where r: "g_returns (scan_of env argv) = (of_char CHR ''h'', diag) # rest"
    by (rule flags_Cons)
  show "fst (run env argv d) = Exit 0"
    "stdout_of (trace (snd (run env argv d))) = helpString"
    unfolding run_help [OF r]
    by (simp_all add: diag_events_facts stdout_of_append)
qed

text \<open>
  The witness of C10: \<^verbatim>\<open>vdodumpconfig -x --help\<close> (the unrecognized flag first) and
  \<^verbatim>\<open>vdodumpconfig a -h -x b\<close> (the help flag first, two positional arguments).
\<close>

theorem C10_help_precedence_witness:
  "first_unrecognized (flags example_env [''vdodumpconfig'', ''-x'', ''--help''])
     < first_help (flags example_env [''vdodumpconfig'', ''-x'', ''--help''])
   \<and> fst (run example_env [''vdodumpconfig'', ''-x'', ''--help''] example_disk) = Exit 1
   \<and> stdout_of (trace (snd (run example_env [''vdodumpconfig'', ''-x'', ''--help''] example_disk)))
       = []
   \<and> first_help (flags example_env [''vdodumpconfig'', ''a'', ''-h'', ''-x'', ''b''])
     < first_unrecognized (flags example_env [''vdodumpconfig'', ''a'', ''-h'', ''-x'', ''b''])
   \<and> positional_args example_env [''vdodumpconfig'', ''a'', ''-h'', ''-x'', ''b''] = [''a'', ''b'']
   \<and> fst (run example_env [''vdodumpconfig'', ''a'', ''-h'', ''-x'', ''b''] example_disk) = Exit 0
   \<and> stdout_of (trace (snd (run example_env [''vdodumpconfig'', ''a'', ''-h'', ''-x'', ''b'']
         example_disk))) = helpString"
proof -
  have a: "first_unrecognized (flags example_env [''vdodumpconfig'', ''-x'', ''--help''])
     < first_help (flags example_env [''vdodumpconfig'', ''-x'', ''--help''])"
    by (simp add: flags_def example_scan_x_help first_unrecognized_def first_help_def)
  have b: "first_help (flags example_env [''vdodumpconfig'', ''a'', ''-h'', ''-x'', ''b''])
     < first_unrecognized (flags example_env [''vdodumpconfig'', ''a'', ''-h'', ''-x'', ''b''])"
    by (simp add: flags_def example_scan_a_h_x_b first_unrecognized_def first_help_def)
  have p: "positional_args example_env [''vdodumpconfig'', ''a'', ''-h'', ''-x'', ''b'']
      = [''a'', ''b'']"
    by (simp add: positional_args_def example_scan_a_h_x_b)
  from C10_help_precedence [of example_env "[''vdodumpconfig'', ''-x'', ''--help'']" example_disk]
    C10_help_precedence [of example_env "[''vdodumpconfig'', ''a'', ''-h'', ''-x'', ''b'']"
      example_disk]
    a b p
  show ?thesis by simp
qed

end
